theory Spec2Isabelle
  imports Complex_Main "HOL-Library.Multiset" "HOL-Library.Sublist"
begin


section \<open>Tensors\<close>

text \<open>
  The example script \<^verbatim>\<open>example.py\<close> works on tensors of the tensor runtime. A tensor is
  its shape and its elements in row-major order; a zero-dimensional tensor has the shape
  \<open>[]\<close> and one element. Floating-point numbers are idealised as reals: the properties
  verified here are about shapes, indices, the labels 0 and 1, and the order of calls.
  Every exception is a value of \<open>error\<close>; a call that may raise returns \<open>error + 'a\<close>,
  with \<open>Inl\<close> for the exception.
\<close>

datatype error = RuntimeError | IndexError | ValueError | AssertionError | NameError | LibraryError

record tensor =
  shape :: "nat list"
  data :: "real list"

definition numel :: "nat list \<Rightarrow> nat" where
  "numel s = prod_list s"

definition wf_tensor :: "tensor \<Rightarrow> bool" where
  "wf_tensor t = (length (data t) = numel (shape t))"

text \<open>Sequencing of calls that may raise: the first exception ends the computation.\<close>

fun rbind :: "error + 'a \<Rightarrow> ('a \<Rightarrow> error + 'b) \<Rightarrow> error + 'b" where
  "rbind (Inl e) f = Inl e"
| "rbind (Inr x) f = f x"

text \<open>The \<open>r\<close>-th block of \<open>k\<close> consecutive elements of a row-major element list.\<close>

definition row :: "nat \<Rightarrow> nat \<Rightarrow> 'a list \<Rightarrow> 'a list" where
  "row k r xs = take k (drop (r * k) xs)"

text \<open>
  All index tuples of a shape in row-major order, the position of an index tuple in that
  order, the element at an index tuple, and the tensor of a shape given element by element.
\<close>

fun indices :: "nat list \<Rightarrow> nat list list" where
  "indices [] = [[]]"
| "indices (n # s) = concat (map (\<lambda>i. map ((#) i) (indices s)) [0..<n])"

fun offset :: "nat list \<Rightarrow> nat list \<Rightarrow> nat" where
  "offset (n # s) (i # idx) = i * numel s + offset s idx"
| "offset _ _ = 0"

definition elem :: "tensor \<Rightarrow> nat list \<Rightarrow> real" where
  "elem t idx = data t ! offset (shape t) idx"

definition tabulate :: "nat list \<Rightarrow> (nat list \<Rightarrow> real) \<Rightarrow> tensor" where
  "tabulate s f = \<lparr>shape = s, data = map f (indices s)\<rparr>"

subsection \<open>Operations of the tensor runtime used by the script\<close>

text \<open>Pointwise functions (\<^verbatim>\<open>torch.cos\<close>, \<^verbatim>\<open>torch.sin\<close>, arithmetic with a number).\<close>

definition tmap :: "(real \<Rightarrow> real) \<Rightarrow> tensor \<Rightarrow> tensor" where
  "tmap f t = t\<lparr>data := map f (data t)\<rparr>"

definition torch_tanh :: "tensor \<Rightarrow> tensor" where
  "torch_tanh x = x\<lparr>data := map tanh (data x)\<rparr>"

definition torch_linspace :: "real \<Rightarrow> real \<Rightarrow> nat \<Rightarrow> tensor" where
  "torch_linspace a b steps =
     tabulate [steps] (\<lambda>idx. a + real (hd idx) * ((b - a) / real (steps - 1)))"

definition torch_zeros :: "nat list \<Rightarrow> tensor" where
  "torch_zeros s = tabulate s (\<lambda>idx. 0)"

text \<open>\<^verbatim>\<open>t.unsqueeze(d)\<close> inserts a dimension of size 1 at position \<open>d\<close>.\<close>

definition unsqueeze :: "nat \<Rightarrow> tensor \<Rightarrow> error + tensor" where
  "unsqueeze d t =
     (if d \<le> length (shape t) then Inr (t\<lparr>shape := take d (shape t) @ 1 # drop d (shape t)\<rparr>)
      else Inl IndexError)"

text \<open>
  Binary pointwise operations broadcast: the shapes are aligned at the right, padded with
  ones, and two sizes are compatible when they are equal or one of them is 1. A shape
  mismatch raises.
\<close>

definition pad_shape :: "nat \<Rightarrow> nat list \<Rightarrow> nat list" where
  "pad_shape n s = replicate (n - length s) 1 @ s"

definition broadcast_shapes :: "nat list \<Rightarrow> nat list \<Rightarrow> nat list option" where
  "broadcast_shapes s1 s2 =
     (let n = max (length s1) (length s2); p1 = pad_shape n s1; p2 = pad_shape n s2
      in if list_all2 (\<lambda>a b. a = b \<or> a = 1 \<or> b = 1) p1 p2
         then Some (map2 (\<lambda>a b. if a = 1 then b else a) p1 p2) else None)"

definition bidx :: "nat list \<Rightarrow> nat list \<Rightarrow> nat list" where
  "bidx s idx = map2 (\<lambda>n i. if n = 1 then 0 else i) s (drop (length idx - length s) idx)"

definition tbinop :: "(real \<Rightarrow> real \<Rightarrow> real) \<Rightarrow> tensor \<Rightarrow> tensor \<Rightarrow> error + tensor" where
  "tbinop f a b =
     (case broadcast_shapes (shape a) (shape b) of
        None \<Rightarrow> Inl RuntimeError
      | Some s \<Rightarrow>
          Inr (tabulate s (\<lambda>idx. f (elem a (bidx (shape a) idx)) (elem b (bidx (shape b) idx)))))"

text \<open>
  In-place updates of a leading slice, \<^verbatim>\<open>x[:n] *= c\<close> and \<^verbatim>\<open>y[:n] = v\<close>, returned as
  the updated tensor. Slicing a zero-dimensional tensor raises.
\<close>

definition imul_rows :: "nat \<Rightarrow> real \<Rightarrow> tensor \<Rightarrow> error + tensor" where
  "imul_rows n c t =
     (if shape t = [] then Inl IndexError
      else Inr (tabulate (shape t) (\<lambda>idx. if hd idx < n then elem t idx * c else elem t idx)))"

definition iset_rows :: "nat \<Rightarrow> real \<Rightarrow> tensor \<Rightarrow> error + tensor" where
  "iset_rows n v t =
     (if shape t = [] then Inl IndexError
      else Inr (tabulate (shape t) (\<lambda>idx. if hd idx < n then v else elem t idx)))"

text \<open>\<^verbatim>\<open>torch.stack(ts, dim=d)\<close>: tensors of one shape, joined along a new dimension \<open>d\<close>.\<close>

definition torch_stack :: "tensor list \<Rightarrow> nat \<Rightarrow> error + tensor" where
  "torch_stack ts d =
     (case ts of
        [] \<Rightarrow> Inl RuntimeError
      | t # _ \<Rightarrow>
          if \<not> list_all (\<lambda>u. shape u = shape t) ts then Inl RuntimeError
          else if length (shape t) < d then Inl IndexError
          else Inr (tabulate (take d (shape t) @ length ts # drop d (shape t))
                      (\<lambda>idx. elem (ts ! (idx ! d)) (take d idx @ drop (Suc d) idx))))"

text \<open>
  \<^verbatim>\<open>t[ix]\<close> with a tensor of indices selects along the first dimension; an index out of
  range raises. \<^verbatim>\<open>t[i]\<close> and \<^verbatim>\<open>t[-1]\<close> select one position of the first dimension,
  \<^verbatim>\<open>t[:, j]\<close> one position of the second; each removes that dimension.
\<close>

definition index0 :: "tensor \<Rightarrow> nat list \<Rightarrow> error + tensor" where
  "index0 t ix =
     (case shape t of
        [] \<Rightarrow> Inl IndexError
      | n # s \<Rightarrow>
          if list_all (\<lambda>i. i < n) ix
          then Inr (tabulate (length ix # s) (\<lambda>idx. elem t (ix ! hd idx # tl idx)))
          else Inl IndexError)"

definition select0 :: "tensor \<Rightarrow> nat \<Rightarrow> error + tensor" where
  "select0 t i =
     (case shape t of
        [] \<Rightarrow> Inl IndexError
      | n # s \<Rightarrow> if i < n then Inr (tabulate s (\<lambda>idx. elem t (i # idx))) else Inl IndexError)"

definition select_last :: "tensor \<Rightarrow> error + tensor" where
  "select_last t =
     (case shape t of
        [] \<Rightarrow> Inl IndexError
      | n # s \<Rightarrow> if 0 < n then select0 t (n - 1) else Inl IndexError)"

definition select1 :: "tensor \<Rightarrow> nat \<Rightarrow> error + tensor" where
  "select1 t j =
     (case shape t of
        n # m # s \<Rightarrow>
          if j < m then Inr (tabulate (n # s) (\<lambda>idx. elem t (hd idx # j # tl idx)))
          else Inl IndexError
      | _ \<Rightarrow> Inl IndexError)"

text \<open>
  \<^verbatim>\<open>torch.cat(ts)\<close> joins along the first dimension. The runtime raises on an empty
  list and on a zero-dimensional tensor (RuntimeError: zero-dimensional tensor cannot be
  concatenated); it skips one-dimensional empty tensors, and the remaining tensors must
  agree on all dimensions but the first.
\<close>

definition torch_cat :: "tensor list \<Rightarrow> error + tensor" where
  "torch_cat ts =
     (if ts = [] then Inl RuntimeError
      else if list_ex (\<lambda>t. shape t = []) ts then Inl RuntimeError
      else (case filter (\<lambda>t. shape t \<noteq> [0]) ts of
              [] \<Rightarrow> Inr \<lparr>shape = [0], data = []\<rparr>
            | u # us \<Rightarrow>
                if list_all (\<lambda>t. tl (shape t) = tl (shape u)) us
                then Inr \<lparr>shape = sum_list (map (\<lambda>t. hd (shape t)) (u # us)) # tl (shape u),
                          data = concat (map data (u # us))\<rparr>
                else Inl RuntimeError))"

text \<open>\<^verbatim>\<open>t.squeeze(-1)\<close> removes the last dimension when its size is 1.\<close>

definition squeeze_last :: "tensor \<Rightarrow> tensor" where
  "squeeze_last t =
     (if shape t \<noteq> [] \<and> last (shape t) = 1 then t\<lparr>shape := butlast (shape t)\<rparr> else t)"

text \<open>
  \<^verbatim>\<open>z.view(*sizes)\<close> with explicit sizes keeps the elements and raises when the sizes do
  not multiply to the number of elements.
\<close>

definition view :: "tensor \<Rightarrow> nat list \<Rightarrow> error + tensor" where
  "view z s = (if numel s = numel (shape z) then Inr (z\<lparr>shape := s\<rparr>) else Inl RuntimeError)"

text \<open>
  The logistic function on the reals. \<^verbatim>\<open>torch.sigmoid\<close> computes it in floating point, and
  its result is compared with 0.5, so a rounding of the result decides a prediction: the
  runtime's function is a parameter of the evaluation (\<open>torch_sigmoid\<close> below), and the
  exact function is one instance of it.
\<close>

definition sigmoid :: "real \<Rightarrow> real" where
  "sigmoid x = 1 / (1 + exp (- x))"

text \<open>
  \<^verbatim>\<open>binary_cross_entropy_with_logits(input, target)\<close>: the mean over all elements, a
  zero-dimensional tensor; the runtime raises when the two shapes differ. \<^verbatim>\<open>loss.item()\<close>
  reads the number of a one-element tensor.
\<close>

definition binary_cross_entropy_with_logits :: "tensor \<Rightarrow> tensor \<Rightarrow> error + tensor" where
  "binary_cross_entropy_with_logits input target =
     (if shape input = shape target
      then Inr \<lparr>shape = [],
                data = [sum_list (map2 (\<lambda>x y. max x 0 - x * y + ln (1 + exp (- \<bar>x\<bar>)))
                                      (data input) (data target))
                        / real (numel (shape input))]\<rparr>
      else Inl ValueError)"

definition item :: "tensor \<Rightarrow> error + real" where
  "item t = (case data t of [x] \<Rightarrow> Inr x | _ \<Rightarrow> Inl ValueError)"

subsection \<open>The random generator\<close>

text \<open>
  The runtime's global generator is an explicit state \<open>'g\<close>. Its operations are
  parameters: one uniform number in \<open>[0, 1)\<close>, a random permutation of \<open>0, ..., n - 1\<close>,
  and the initial parameters of a linear layer of given widths. \<^verbatim>\<open>torch.rand(*shape)\<close>
  draws one number per element.
\<close>

type_synonym params = "real list list \<times> real list"

record 'g rng =
  uniform :: "'g \<Rightarrow> real \<times> 'g"
  randperm :: "nat \<Rightarrow> 'g \<Rightarrow> nat list \<times> 'g"
  linear_params :: "nat \<Rightarrow> nat \<Rightarrow> 'g \<Rightarrow> params \<times> 'g"

fun draws :: "'g rng \<Rightarrow> nat \<Rightarrow> 'g \<Rightarrow> real list \<times> 'g" where
  "draws R 0 g = ([], g)"
| "draws R (Suc n) g =
     (let (x, g1) = uniform R g; (xs, g2) = draws R n g1 in (x # xs, g2))"

definition torch_rand :: "'g rng \<Rightarrow> nat list \<Rightarrow> 'g \<Rightarrow> tensor \<times> 'g" where
  "torch_rand R s g = (let (xs, g') = draws R (numel s) g in (\<lparr>shape = s, data = xs\<rparr>, g'))"

text \<open>What the runtime documents of \<^verbatim>\<open>torch.randperm(n)\<close>: a permutation of \<open>0, ..., n - 1\<close>.\<close>

definition randperm_ok :: "'g rng \<Rightarrow> bool" where
  "randperm_ok R = (\<forall>n g. mset (fst (randperm R n g)) = mset [0..<n])"

subsection \<open>\<^verbatim>\<open>torch.nn.Linear\<close>\<close>

text \<open>
  A linear layer holds its two widths, a weight matrix (one row per output feature) and a
  bias. Its constructor fixes the widths; the parameter values are drawn by the runtime's
  initialiser and later replaced by the optimiser, so they are an argument here.
\<close>

record Linear =
  in_features :: nat
  out_features :: nat
  weight :: "real list list"
  bias :: "real list"

definition Linear_init :: "nat \<Rightarrow> nat \<Rightarrow> params \<Rightarrow> Linear" where
  "Linear_init i out p = \<lparr>in_features = i, out_features = out, weight = fst p, bias = snd p\<rparr>"

definition dot :: "real list \<Rightarrow> real list \<Rightarrow> real" where
  "dot w x = sum_list (map2 (*) w x)"

text \<open>The affine map of a layer on one vector: \<open>W x + b\<close>.\<close>

definition affine :: "Linear \<Rightarrow> real list \<Rightarrow> real list" where
  "affine l x = map (\<lambda>j. dot (weight l ! j) x + bias l ! j) [0..<out_features l]"

text \<open>
  Applying the layer to a tensor maps every vector along the last dimension. The runtime
  raises when the tensor has no dimension or its last dimension is not \<open>in_features\<close>.
\<close>

definition Linear_forward :: "Linear \<Rightarrow> tensor \<Rightarrow> error + tensor" where
  "Linear_forward l x =
     (if shape x = [] \<or> last (shape x) \<noteq> in_features l then Inl RuntimeError
      else Inr \<lparr>shape = butlast (shape x) @ [out_features l],
                data = concat (map (\<lambda>r. affine l (row (in_features l) r (data x)))
                                   [0..<numel (butlast (shape x))])\<rparr>)"

section \<open>The vector field \<^verbatim>\<open>CDEFunc\<close>\<close>

record CDEFunc =
  cf_input_channels :: nat
  cf_hidden_channels :: nat
  cf_linear1 :: Linear
  cf_linear2 :: Linear

definition CDEFunc_init :: "nat \<Rightarrow> nat \<Rightarrow> params \<Rightarrow> params \<Rightarrow> CDEFunc" where
  "CDEFunc_init input_channels hidden_channels p1 p2 =
     \<lparr>cf_input_channels = input_channels,
      cf_hidden_channels = hidden_channels,
      cf_linear1 = Linear_init hidden_channels 128 p1,
      cf_linear2 = Linear_init 128 (input_channels * hidden_channels) p2\<rparr>"

definition CDEFunc_forward :: "CDEFunc \<Rightarrow> tensor \<Rightarrow> error + tensor" where
  "CDEFunc_forward f z =
     rbind (Linear_forward (cf_linear1 f) z) (\<lambda>z.
     rbind (Inr (torch_tanh z)) (\<lambda>z.
     rbind (Linear_forward (cf_linear2 f) z) (\<lambda>z.
     view z (butlast (shape z) @ [cf_hidden_channels f, cf_input_channels f]))))"

section \<open>The model \<^verbatim>\<open>NeuralCDE\<close>\<close>

text \<open>
  The package \<^verbatim>\<open>torchcontroldiffeq\<close> is not part of the script. Its four entry points
  are parameters: the coefficient builder, the spline constructor, the evaluation of a
  spline at a time, and the integrator. Each may raise. \<open>'s\<close> is the type of spline
  objects.
\<close>

record 's cdelib =
  natural_cubic_spline_coeffs :: "tensor \<Rightarrow> tensor \<Rightarrow> error + tensor list"
  NaturalCubicSpline :: "tensor list \<Rightarrow> error + 's"
  evaluate :: "'s \<Rightarrow> tensor \<Rightarrow> error + tensor"
  cdeint :: "'s \<Rightarrow> (tensor \<Rightarrow> error + tensor) \<Rightarrow> tensor \<Rightarrow> tensor \<Rightarrow> error + tensor"

record NeuralCDE =
  nc_hidden_channels :: nat
  nc_initial :: Linear
  nc_func :: CDEFunc
  nc_linear :: Linear

definition NeuralCDE_init ::
    "nat \<Rightarrow> nat \<Rightarrow> nat \<Rightarrow> params \<Rightarrow> params \<Rightarrow> params \<Rightarrow> params \<Rightarrow> NeuralCDE" where
  "NeuralCDE_init input_channels hidden_channels output_channels p0 p1 p2 p3 =
     \<lparr>nc_hidden_channels = hidden_channels,
      nc_initial = Linear_init input_channels hidden_channels p0,
      nc_func = CDEFunc_init input_channels hidden_channels p1 p2,
      nc_linear = Linear_init hidden_channels output_channels p3\<rparr>"

text \<open>The constructor call of the script: the four layers draw their initial parameters.\<close>

definition NeuralCDE_new :: "'g rng \<Rightarrow> nat \<Rightarrow> nat \<Rightarrow> nat \<Rightarrow> 'g \<Rightarrow> NeuralCDE \<times> 'g" where
  "NeuralCDE_new R input_channels hidden_channels output_channels g0 =
     (let (p0, g1) = linear_params R input_channels hidden_channels g0;
          (p1, g2) = linear_params R hidden_channels 128 g1;
          (p2, g3) = linear_params R 128 (input_channels * hidden_channels) g2;
          (p3, g4) = linear_params R hidden_channels output_channels g3
      in (NeuralCDE_init input_channels hidden_channels output_channels p0 p1 p2 p3, g4))"

text \<open>
  \<^verbatim>\<open>NeuralCDE.forward\<close>. The arguments of the integrator call are evaluated before the
  call, so \<^verbatim>\<open>torch.cat([initial_t, final_t])\<close> comes before \<^verbatim>\<open>cdeint\<close>.
\<close>

definition NeuralCDE_forward ::
    "'s cdelib \<Rightarrow> NeuralCDE \<Rightarrow> tensor list \<Rightarrow> tensor \<Rightarrow> tensor \<Rightarrow> error + tensor" where
  "NeuralCDE_forward L m coeffs initial_t final_t =
     rbind (NaturalCubicSpline L coeffs) (\<lambda>cubic_spline.
     rbind (evaluate L cubic_spline initial_t) (\<lambda>x0.
     rbind (Linear_forward (nc_initial m) x0) (\<lambda>z0.
     rbind (torch_cat [initial_t, final_t]) (\<lambda>t.
     rbind (cdeint L cubic_spline (CDEFunc_forward (nc_func m)) z0 t) (\<lambda>z_T.
     rbind (select1 z_T 1) (\<lambda>z_T.
     Linear_forward (nc_linear m) z_T))))))"

section \<open>The data generator \<^verbatim>\<open>get_data\<close>\<close>

text \<open>
  Lines 87 to 96 of the script: the noisy spirals before the permutation. The generator is
  read twice, for the 128 starting phases and for the noise.
\<close>

definition spirals :: "'g rng \<Rightarrow> 'g \<Rightarrow> (error + tensor) \<times> 'g" where
  "spirals R g0 =
     (let linspace = torch_linspace 0 (4 * pi) 100;
          (u, g1) = torch_rand R [128] g0;
          start = tmap (\<lambda>x. x * 2 * pi) u
      in case
           rbind (unsqueeze 1 start) (\<lambda>start1.
           rbind (unsqueeze 0 linspace) (\<lambda>linspace0.
           rbind (tbinop (+) start1 linspace0) (\<lambda>times.
           rbind (tbinop (/) (tmap cos times) (tmap (\<lambda>x. 1 + 0.5 * x) times)) (\<lambda>x_pos.
           rbind (imul_rows 64 (- 1) x_pos) (\<lambda>x_pos.
           rbind (tbinop (/) (tmap sin times) (tmap (\<lambda>x. 1 + 0.5 * x) times)) (\<lambda>y_pos.
           torch_stack [x_pos, y_pos] 2))))))
         of
           Inl e \<Rightarrow> (Inl e, g1)
         | Inr pos \<Rightarrow>
             (let (v, g2) = torch_rand R [128, 100, 2] g1;
                  additive_noise = tmap (\<lambda>x. 0.06 * x - 0.03) v
              in (tbinop (+) pos additive_noise, g2)))"

text \<open>Lines 97 and 98: the labels before the permutation.\<close>

definition labels :: "error + tensor" where
  "labels = iset_rows 64 1 (torch_zeros [128])"

text \<open>Lines 100 to 111: one permutation indexes both tensors; the time grid is fixed.\<close>

definition get_data :: "'g rng \<Rightarrow> 'g \<Rightarrow> (error + tensor \<times> tensor \<times> tensor) \<times> 'g" where
  "get_data R g0 =
     (case spirals R g0 of
        (Inl e, g2) \<Rightarrow> (Inl e, g2)
      | (Inr X, g2) \<Rightarrow>
          (case labels of
             Inl e \<Rightarrow> (Inl e, g2)
           | Inr y \<Rightarrow>
               (let (perm, g3) = randperm R 128 g2
                in (rbind (index0 X perm) (\<lambda>X.
                    rbind (index0 y perm) (\<lambda>y.
                    Inr (torch_linspace 0 99 100, X, y))), g3))))"

text \<open>
  The three values \<^verbatim>\<open>get_data\<close> reads from the generator, in the order of the reads: the
  starting phases, the noise and the permutation.
\<close>

definition get_data_draws :: "'g rng \<Rightarrow> 'g \<Rightarrow> tensor \<times> tensor \<times> nat list" where
  "get_data_draws R g0 =
     (let (u, g1) = torch_rand R [128] g0;
          (v, g2) = torch_rand R [128, 100, 2] g1;
          (perm, g3) = randperm R 128 g2
      in (u, v, perm))"

text \<open>
  The spiral of generated sample \<open>j\<close> at grid position \<open>k\<close>, before the sign flip and the
  noise: its time, and its horizontal and vertical position.
\<close>

definition spiral_time :: "tensor \<Rightarrow> nat \<Rightarrow> nat \<Rightarrow> real" where
  "spiral_time u j k = elem u [j] * 2 * pi + (0 + real k * ((4 * pi - 0) / real (100 - 1)))"

definition x_spiral :: "tensor \<Rightarrow> nat \<Rightarrow> nat \<Rightarrow> real" where
  "x_spiral u j k = cos (spiral_time u j k) / (1 + 0.5 * spiral_time u j k)"

definition y_spiral :: "tensor \<Rightarrow> nat \<Rightarrow> nat \<Rightarrow> real" where
  "y_spiral u j k = sin (spiral_time u j k) / (1 + 0.5 * spiral_time u j k)"

section \<open>Training and evaluation: \<^verbatim>\<open>main\<close>\<close>

subsection \<open>\<^verbatim>\<open>TensorDataset\<close> and \<^verbatim>\<open>DataLoader\<close>\<close>

text \<open>
  \<^verbatim>\<open>TensorDataset(*tensors)\<close> asserts that all tensors have the size of the first along
  the first dimension. \<^verbatim>\<open>DataLoader(dataset, batch_size)\<close> without shuffling yields the
  samples in order, \<open>batch_size\<close> at a time (the last batch may be shorter), each batch
  collated tensor by tensor.
\<close>

fun check_sizes :: "nat \<Rightarrow> tensor list \<Rightarrow> error + unit" where
  "check_sizes n [] = Inr ()"
| "check_sizes n (t # ts) =
     (case shape t of
        [] \<Rightarrow> Inl IndexError
      | m # _ \<Rightarrow> if n = m then check_sizes n ts else Inl AssertionError)"

definition TensorDataset :: "tensor list \<Rightarrow> error + tensor list" where
  "TensorDataset tensors =
     (case tensors of
        [] \<Rightarrow> Inl IndexError
      | t # _ \<Rightarrow>
          (case shape t of
             [] \<Rightarrow> Inl IndexError
           | n # _ \<Rightarrow> rbind (check_sizes n tensors) (\<lambda>_. Inr tensors)))"

definition dataset_len :: "tensor list \<Rightarrow> nat" where
  "dataset_len ds = hd (shape (hd ds))"

definition batch_indices :: "nat \<Rightarrow> nat \<Rightarrow> nat list list" where
  "batch_indices n bs = map (\<lambda>k. [k * bs..<min n (k * bs + bs)]) [0..<(n + bs - 1) div bs]"

definition collate :: "tensor list \<Rightarrow> nat list \<Rightarrow> tensor list" where
  "collate ds ix =
     map (\<lambda>t. tabulate (length ix # tl (shape t)) (\<lambda>idx. elem t (ix ! hd idx # tl idx))) ds"

definition DataLoader :: "tensor list \<Rightarrow> nat \<Rightarrow> tensor list list" where
  "DataLoader ds batch_size = map (collate ds) (batch_indices (dataset_len ds) batch_size)"

subsection \<open>The state of a run\<close>

text \<open>
  Automatic differentiation and the optimiser are parameters: \<^verbatim>\<open>loss.backward()\<close> adds
  the gradients of the batch's loss to the stored gradients \<open>'gr\<close>, \<^verbatim>\<open>optimizer.step()\<close>
  maps the optimiser state \<open>'o\<close>, the model and the gradients to a new optimiser state
  and model, \<^verbatim>\<open>optimizer.zero_grad()\<close> resets the gradients. So is the runtime's
  floating-point \<^verbatim>\<open>torch.sigmoid\<close> on one number, whose result the evaluation compares
  with 0.5.
\<close>

record ('gr, 'o) autograd =
  backward :: "NeuralCDE \<Rightarrow> tensor list \<Rightarrow> tensor \<Rightarrow> 'gr \<Rightarrow> error + 'gr"
  adam_init :: "NeuralCDE \<Rightarrow> 'o"
  adam_step :: "'o \<Rightarrow> NeuralCDE \<Rightarrow> 'gr \<Rightarrow> error + 'o \<times> NeuralCDE"
  zero_grad :: "'gr \<Rightarrow> 'gr"
  no_grads :: "'gr"
  torch_sigmoid :: "real \<Rightarrow> real"

text \<open>
  The calls a run makes, in order. An event is recorded when the call is made, so a call
  that raises is the last event of its run. Training events carry the epoch and the
  number of the batch within the epoch; a forward pass also carries the coefficients it
  is given, and a loss the labels it is computed against.
\<close>

datatype event =
    EvGetData | EvCoeffs
  | EvForward nat nat "tensor list" | EvLoss nat nat tensor
  | EvBackward nat nat | EvStep nat nat | EvZeroGrad nat nat
  | EvPrintLoss nat
  | EvTestForward | EvPrintAccuracy

text \<open>
  A run: the model, the gradients, the optimiser state, the variable \<^verbatim>\<open>loss\<close> (unbound
  before the first batch), the events so far, the numbers printed so far, and the
  exception that ended the run, if any. A run that has failed does nothing more.
\<close>

record ('gr, 'o) run =
  r_model :: NeuralCDE
  r_grads :: "'gr"
  r_opt :: "'o"
  r_loss :: "tensor option"
  r_events :: "event list"
  r_printed :: "real list"
  r_failed :: "error option"

definition emit :: "event \<Rightarrow> ('gr, 'o) run \<Rightarrow> ('gr, 'o) run" where
  "emit e s = s\<lparr>r_events := r_events s @ [e]\<rparr>"

definition raise :: "error \<Rightarrow> ('gr, 'o) run \<Rightarrow> ('gr, 'o) run" where
  "raise e s = s\<lparr>r_failed := Some e\<rparr>"

text \<open>
  The call \<^verbatim>\<open>model(coeffs, initial_t, final_t)\<close> is a parameter of the loops, so that
  their properties hold for every model; \<^verbatim>\<open>main\<close> passes \<open>NeuralCDE_forward\<close>.
\<close>

type_synonym model_call = "NeuralCDE \<Rightarrow> tensor list \<Rightarrow> tensor \<Rightarrow> tensor \<Rightarrow> error + tensor"

text \<open>The two time arguments \<^verbatim>\<open>t[0]\<close> and \<^verbatim>\<open>t[-1]\<close> of a model call.\<close>

definition endpoints :: "tensor \<Rightarrow> error + tensor \<times> tensor" where
  "endpoints t = rbind (select0 t 0) (\<lambda>t0. rbind (select_last t) (\<lambda>t1. Inr (t0, t1)))"

subsection \<open>The training loop\<close>

text \<open>Lines 143 to 148: one batch.\<close>

definition train_batch ::
    "('gr, 'o) autograd \<Rightarrow> model_call \<Rightarrow> tensor \<Rightarrow> nat \<Rightarrow> nat \<times> tensor list \<Rightarrow>
     ('gr, 'o) run \<Rightarrow> ('gr, 'o) run" where
  "train_batch A fwd train_t epoch nb s =
     (case nb of (b, batch) \<Rightarrow>
        if r_failed s \<noteq> None then s
        else if batch = [] then raise ValueError s
        else
          (let batch_coeffs = butlast batch; batch_y = last batch in
           case endpoints train_t of
             Inl e \<Rightarrow> raise e s
           | Inr (t0, t1) \<Rightarrow>
               (let s1 = emit (EvForward epoch b batch_coeffs) s in
                case fwd (r_model s1) batch_coeffs t0 t1 of
                  Inl e \<Rightarrow> raise e s1
                | Inr out \<Rightarrow>
                    (let pred_y = squeeze_last out; s2 = emit (EvLoss epoch b batch_y) s1 in
                     case binary_cross_entropy_with_logits pred_y batch_y of
                       Inl e \<Rightarrow> raise e s2
                     | Inr l \<Rightarrow>
                         (let s3 = emit (EvBackward epoch b) (s2\<lparr>r_loss := Some l\<rparr>) in
                          case backward A (r_model s3) batch_coeffs batch_y (r_grads s3) of
                            Inl e \<Rightarrow> raise e s3
                          | Inr gr \<Rightarrow>
                              (let s4 = emit (EvStep epoch b) (s3\<lparr>r_grads := gr\<rparr>) in
                               case adam_step A (r_opt s4) (r_model s4) gr of
                                 Inl e \<Rightarrow> raise e s4
                               | Inr (opt', model') \<Rightarrow>
                                   (let s5 = emit (EvZeroGrad epoch b)
                                               (s4\<lparr>r_opt := opt', r_model := model'\<rparr>)
                                    in s5\<lparr>r_grads := zero_grad A (r_grads s5)\<rparr>)))))))"

text \<open>Line 149: the loss printed after the batches of an epoch is the variable \<^verbatim>\<open>loss\<close>.\<close>

definition print_loss :: "nat \<Rightarrow> ('gr, 'o) run \<Rightarrow> ('gr, 'o) run" where
  "print_loss epoch s =
     (if r_failed s \<noteq> None then s
      else case r_loss s of
             None \<Rightarrow> raise NameError s
           | Some l \<Rightarrow>
               (case item l of
                  Inl e \<Rightarrow> raise e s
                | Inr x \<Rightarrow> (emit (EvPrintLoss epoch) s)\<lparr>r_printed := r_printed s @ [x]\<rparr>))"

definition train_epoch ::
    "('gr, 'o) autograd \<Rightarrow> model_call \<Rightarrow> tensor \<Rightarrow> tensor list list \<Rightarrow> nat \<Rightarrow>
     ('gr, 'o) run \<Rightarrow> ('gr, 'o) run" where
  "train_epoch A fwd train_t train_dataloader epoch s =
     print_loss epoch (fold (train_batch A fwd train_t epoch) (enumerate 0 train_dataloader) s)"

text \<open>Lines 141 to 149: the epochs.\<close>

definition train ::
    "('gr, 'o) autograd \<Rightarrow> model_call \<Rightarrow> tensor \<Rightarrow> tensor list list \<Rightarrow>
     ('gr, 'o) run \<Rightarrow> ('gr, 'o) run" where
  "train A fwd train_t train_dataloader s =
     fold (train_epoch A fwd train_t train_dataloader) [0..<100] s"

subsection \<open>The evaluation\<close>

text \<open>Lines 154 to 156: the proportion of the predictions that match the labels.\<close>

definition accuracy :: "('gr, 'o) autograd \<Rightarrow> tensor \<Rightarrow> tensor \<Rightarrow> error + real" where
  "accuracy A pred_y test_y =
     (let binary_prediction = tmap (\<lambda>x. if 0.5 < torch_sigmoid A x then 1 else 0) pred_y in
      rbind (tbinop (\<lambda>a b. if a = b then 1 else 0) binary_prediction test_y) (\<lambda>prediction_matches.
      case shape test_y of
        [] \<Rightarrow> Inl IndexError
      | n # _ \<Rightarrow> Inr (sum_list (data prediction_matches) / real n)))"

text \<open>Lines 151 to 157.\<close>

definition evaluation ::
    "'s cdelib \<Rightarrow> ('gr, 'o) autograd \<Rightarrow> model_call \<Rightarrow> 'g rng \<Rightarrow> 'g \<Rightarrow> ('gr, 'o) run \<Rightarrow>
     ('gr, 'o) run \<times> 'g" where
  "evaluation L A fwd R g s =
     (if r_failed s \<noteq> None then (s, g)
      else
        (let s1 = emit EvGetData s in
         case get_data R g of
           (Inl e, g') \<Rightarrow> (raise e s1, g')
         | (Inr (test_t, test_X, test_y), g') \<Rightarrow>
             (let s2 = emit EvCoeffs s1 in
              case natural_cubic_spline_coeffs L test_t test_X of
                Inl e \<Rightarrow> (raise e s2, g')
              | Inr test_coeffs \<Rightarrow>
                  (case endpoints test_t of
                     Inl e \<Rightarrow> (raise e s2, g')
                   | Inr (t0, t1) \<Rightarrow>
                       (let s3 = emit EvTestForward s2 in
                        case fwd (r_model s3) test_coeffs t0 t1 of
                          Inl e \<Rightarrow> (raise e s3, g')
                        | Inr out \<Rightarrow>
                            (case accuracy A (squeeze_last out) test_y of
                               Inl e \<Rightarrow> (raise e s3, g')
                             | Inr a \<Rightarrow>
                                 ((emit EvPrintAccuracy s3)\<lparr>r_printed := r_printed s3 @ [a]\<rparr>,
                                  g')))))))"

subsection \<open>\<^verbatim>\<open>main\<close>\<close>

text \<open>What can be observed of a run of \<^verbatim>\<open>main\<close>.\<close>

record outcome =
  out_events :: "event list"
  out_printed :: "real list"
  out_error :: "error option"

definition outcome_of :: "('gr, 'o) run \<Rightarrow> outcome" where
  "outcome_of s = \<lparr>out_events = r_events s, out_printed = r_printed s, out_error = r_failed s\<rparr>"

definition main :: "'s cdelib \<Rightarrow> ('gr, 'o) autograd \<Rightarrow> 'g rng \<Rightarrow> 'g \<Rightarrow> outcome \<times> 'g" where
  "main L A R g0 =
     (case get_data R g0 of
        (Inl e, g1) \<Rightarrow>
          (\<lparr>out_events = [EvGetData], out_printed = [], out_error = Some e\<rparr>, g1)
      | (Inr (train_t, train_X, train_y), g1) \<Rightarrow>
          (let (model, g2) = NeuralCDE_new R 2 8 1 g1;
               optimizer = adam_init A model
           in case rbind (natural_cubic_spline_coeffs L train_t train_X) (\<lambda>train_coeffs.
                   TensorDataset (train_coeffs @ [train_y])) of
                Inl e \<Rightarrow>
                  (\<lparr>out_events = [EvGetData, EvCoeffs], out_printed = [], out_error = Some e\<rparr>, g2)
              | Inr train_dataset \<Rightarrow>
                  (let train_dataloader = DataLoader train_dataset 32;
                       s0 = \<lparr>r_model = model, r_grads = no_grads A, r_opt = optimizer,
                             r_loss = None, r_events = [EvGetData, EvCoeffs], r_printed = [],
                             r_failed = None\<rparr>;
                       s1 = train A (NeuralCDE_forward L) train_t train_dataloader s0;
                       (s2, g3) = evaluation L A (NeuralCDE_forward L) R g2 s1
                   in (outcome_of s2, g3))))"

subsection \<open>The order of the calls of a complete training loop\<close>

text \<open>
  Batch number \<open>b\<close> of an epoch: the forward pass on the coefficients of the batch, the
  loss against the labels of the batch, the gradient computation, the optimiser step and
  the gradient reset. An epoch: its batches in the order of the loader, then the print.
  The training: 100 epochs over the same batches.
\<close>

definition batch_events :: "nat \<Rightarrow> nat \<times> tensor list \<Rightarrow> event list" where
  "batch_events e nb =
     (case nb of (b, batch) \<Rightarrow>
        [EvForward e b (butlast batch), EvLoss e b (last batch), EvBackward e b, EvStep e b,
         EvZeroGrad e b])"

definition epoch_events :: "tensor list list \<Rightarrow> nat \<Rightarrow> event list" where
  "epoch_events batches e = concat (map (batch_events e) (enumerate 0 batches)) @ [EvPrintLoss e]"

definition training_events :: "tensor list list \<Rightarrow> event list" where
  "training_events batches = concat (map (epoch_events batches) [0..<100])"

text \<open>
  A step of a run conforms to a sequence of events when it leaves a failed run as it is,
  and from a run that has not failed it records a prefix of the sequence, the whole
  sequence unless it fails.
\<close>

definition conforms :: "(('gr, 'o) run \<Rightarrow> ('gr, 'o) run) \<Rightarrow> event list \<Rightarrow> bool" where
  "conforms f w =
     (\<forall>s. (r_failed s \<noteq> None \<longrightarrow> f s = s) \<and>
          (r_failed s = None \<longrightarrow>
             (\<exists>p. r_events (f s) = r_events s @ p \<and> prefix p w \<and>
                  (r_failed (f s) = None \<longrightarrow> p = w))))"

text \<open>
  Every optimiser step of a sequence of events comes directly after the gradient
  computation, the loss and the forward pass of the same epoch and batch.
\<close>

definition step_ordered :: "event list \<Rightarrow> bool" where
  "step_ordered xs =
     (\<forall>i<length xs. \<forall>e b. xs ! i = EvStep e b \<longrightarrow>
        3 \<le> i \<and> xs ! (i - 1) = EvBackward e b \<and> (\<exists>y. xs ! (i - 2) = EvLoss e b y) \<and>
        (\<exists>c. xs ! (i - 3) = EvForward e b c))"

section \<open>Example instances\<close>

text \<open>
  Small instances of the parameters, used to show that the hypotheses of the theorems
  below can be met: a generator that always draws 0 and reverses the order of the
  samples, a library whose path is piecewise constant and whose integrator keeps the
  initial state, an optimiser that changes nothing, and a model whose parameters are 0.
\<close>

definition zero_params :: "nat \<Rightarrow> nat \<Rightarrow> params" where
  "zero_params i out = (replicate out (replicate i 0), replicate out 0)"

definition rng0 :: "unit rng" where
  "rng0 = \<lparr>uniform = (\<lambda>g. (0, g)),
            randperm = (\<lambda>n g. (rev [0..<n], g)),
            linear_params = (\<lambda>i out g. (zero_params i out, g))\<rparr>"

text \<open>A second generator with the same draws and a different state.\<close>

definition rng1 :: "nat rng" where
  "rng1 = \<lparr>uniform = (\<lambda>g. (0, Suc g)),
            randperm = (\<lambda>n g. (rev [0..<n], g + n)),
            linear_params = (\<lambda>i out g. (zero_params i out, Suc g))\<rparr>"

definition lib0 :: "tensor cdelib" where
  "lib0 = \<lparr>natural_cubic_spline_coeffs = (\<lambda>t X. Inr [X]),
            NaturalCubicSpline = (\<lambda>coeffs. case coeffs of [] \<Rightarrow> Inl LibraryError | c # _ \<Rightarrow> Inr c),
            evaluate = (\<lambda>X t. select1 X 0),
            cdeint = (\<lambda>X f z0 t.
              case shape z0 of
                [b, h] \<Rightarrow>
                  (case shape t of
                     [n] \<Rightarrow> Inr (tabulate [b, n, h] (\<lambda>idx. elem z0 [idx ! 0, idx ! 2]))
                   | _ \<Rightarrow> Inl LibraryError)
              | _ \<Rightarrow> Inl LibraryError)\<rparr>"

definition autograd0 :: "(unit, unit) autograd" where
  "autograd0 = \<lparr>backward = (\<lambda>m c y g. Inr ()),
                 adam_init = (\<lambda>m. ()),
                 adam_step = (\<lambda>opt m g. Inr ((), m)),
                 zero_grad = (\<lambda>g. ()),
                 no_grads = (),
                 torch_sigmoid = sigmoid\<rparr>"

definition model0 :: NeuralCDE where
  "model0 = NeuralCDE_init 2 8 1 (zero_params 2 8) (zero_params 8 128) (zero_params 128 16)
              (zero_params 8 1)"

definition run0 :: "(unit, unit) run" where
  "run0 = \<lparr>r_model = model0, r_grads = (), r_opt = (), r_loss = None, r_events = [],
            r_printed = [], r_failed = None\<rparr>"

text \<open>A model call that returns the logit 0 for every sample of the batch.\<close>

definition fwd0 :: model_call where
  "fwd0 m coeffs t0 t1 =
     (case coeffs of [] \<Rightarrow> Inl LibraryError | c # _ \<Rightarrow> Inr (torch_zeros [hd (shape c), 1]))"

text \<open>Three samples of four observations of two channels, and one-element time tensors.\<close>

definition path0 :: tensor where
  "path0 = torch_zeros [3, 4, 2]"

definition time0 :: tensor where
  "time0 = \<lparr>shape = [1], data = [0]\<rparr>"

definition time1 :: tensor where
  "time1 = \<lparr>shape = [1], data = [3]\<rparr>"

text \<open>A time grid of four points and a training set of one batch with one sample of label 1.\<close>

definition train_t0 :: tensor where
  "train_t0 = torch_linspace 0 3 4"

definition batch0 :: "tensor list" where
  "batch0 = [torch_zeros [1, 4, 2], \<lparr>shape = [1], data = [1]\<rparr>]"

section \<open>Properties of rows, index tuples and elements\<close>

lemma length_concat_blocks:
  "(\<And>r. r < n \<Longrightarrow> length (f r) = k) \<Longrightarrow> length (concat (map f [0..<n])) = n * k"
  by (induction n) simp_all

lemma row_concat_blocks:
  assumes "\<And>r. r < n \<Longrightarrow> length (f r) = k" and "i < n"
  shows "row k i (concat (map f [0..<n])) = f i"
  using assms
proof (induction n)
  case 0
  then show ?case by simp
next
  case (Suc n)
  have len: "length (concat (map f [0..<n])) = n * k"
    using Suc.prems(1) by (intro length_concat_blocks) simp
  show ?case
  proof (cases "i < n")
    case True
    have ih: "row k i (concat (map f [0..<n])) = f i"
      using Suc.IH Suc.prems(1) True by simp
    have "i * k + k \<le> n * k"
      using True by (metis Suc_leI mult_Suc mult_le_mono1 add.commute)
    then have "k \<le> length (drop (i * k) (concat (map f [0..<n])))"
      using len by simp
    then show ?thesis
      using ih len True by (simp add: row_def)
  next
    case False
    then have "i = n" using Suc.prems(2) by simp
    then show ?thesis
      using len Suc.prems(1) by (simp add: row_def)
  qed
qed

lemma nth_concat_blocks:
  assumes "\<And>r. r < n \<Longrightarrow> length (f r) = k" and "i < n" and "j < k"
  shows "concat (map f [0..<n]) ! (i * k + j) = f i ! j"
proof -
  have "f i ! j = row k i (concat (map f [0..<n])) ! j"
    using row_concat_blocks [OF assms(1,2)] by simp
  also have "\<dots> = concat (map f [0..<n]) ! (i * k + j)"
  proof -
    have "length (concat (map f [0..<n])) = n * k"
      using assms(1) by (intro length_concat_blocks) simp
    moreover have "i * k \<le> n * k"
      using assms(2) by (intro mult_le_mono1) simp
    ultimately show ?thesis
      using assms(3) by (simp add: row_def)
  qed
  finally show ?thesis by simp
qed

lemma row_map: "row k r (map g xs) = map g (row k r xs)"
  by (simp add: row_def take_map drop_map)

lemma numel_append: "numel (xs @ ys) = numel xs * numel ys"
  by (simp add: numel_def)

lemma length_indices: "length (indices s) = numel s"
proof (induction s)
  case Nil
  then show ?case by (simp add: numel_def)
next
  case (Cons n s)
  have "length (concat (map (\<lambda>i. map ((#) i) (indices s)) [0..<n])) = n * numel s"
    by (intro length_concat_blocks) (simp add: Cons.IH)
  then show ?case by (simp add: numel_def)
qed

lemma offset_less: "list_all2 (<) idx s \<Longrightarrow> offset s idx < numel s"
proof (induction s arbitrary: idx)
  case Nil
  then show ?case by (simp add: numel_def)
next
  case (Cons n s)
  then obtain i idx' where idx: "idx = i # idx'" and i: "i < n" and rest: "list_all2 (<) idx' s"
    by (auto simp: list_all2_Cons2)
  have o: "offset s idx' < numel s" using Cons.IH rest by simp
  have "i * numel s + offset s idx' < Suc i * numel s" using o by simp
  also have "\<dots> \<le> n * numel s" using i by (intro mult_le_mono1) simp
  finally show ?case by (simp add: idx numel_def)
qed

lemma indices_nth: "list_all2 (<) idx s \<Longrightarrow> indices s ! offset s idx = idx"
proof (induction s arbitrary: idx)
  case Nil
  then show ?case by simp
next
  case (Cons n s)
  then obtain i idx' where idx: "idx = i # idx'" and i: "i < n" and rest: "list_all2 (<) idx' s"
    by (auto simp: list_all2_Cons2)
  have o: "offset s idx' < numel s" using offset_less rest by simp
  have "concat (map (\<lambda>i. map ((#) i) (indices s)) [0..<n]) ! (i * numel s + offset s idx')
      = map ((#) i) (indices s) ! offset s idx'"
    using i o by (intro nth_concat_blocks) (simp_all add: length_indices)
  then show ?case using o Cons.IH rest by (simp add: idx length_indices)
qed

lemma elem_tabulate: "list_all2 (<) idx s \<Longrightarrow> elem (tabulate s f) idx = f idx"
  using offset_less [of idx s] indices_nth [of idx s]
  by (simp add: elem_def tabulate_def length_indices)

lemma shape_tabulate [simp]: "shape (tabulate s f) = s"
  by (simp add: tabulate_def)

lemma length_data_tabulate [simp]: "length (data (tabulate s f)) = numel s"
  by (simp add: tabulate_def length_indices)

lemma indices_1d: "indices [n] = map (\<lambda>i. [i]) [0..<n]"
  by (induction n) simp_all

lemma wf_tabulate [simp]: "wf_tensor (tabulate s f)"
  by (simp add: wf_tensor_def)

lemma wf_tmap [simp]: "wf_tensor (tmap f t) = wf_tensor t"
  by (simp add: wf_tensor_def tmap_def)

lemma shape_tmap [simp]: "shape (tmap f t) = shape t"
  by (simp add: tmap_def)

lemma elem_tmap: "wf_tensor t \<Longrightarrow> list_all2 (<) idx (shape t) \<Longrightarrow> elem (tmap f t) idx = f (elem t idx)"
  using offset_less [of idx "shape t"] by (simp add: elem_def tmap_def wf_tensor_def)

lemma elem_zeros: "list_all2 (<) idx s \<Longrightarrow> elem (torch_zeros s) idx = 0"
  by (simp add: torch_zeros_def elem_tabulate)

lemma shape_linspace: "shape (torch_linspace a b n) = [n]"
  by (simp add: torch_linspace_def)

lemma broadcast_same: "broadcast_shapes s s = Some s"
proof -
  have "list_all2 (\<lambda>a b. a = b \<or> a = 1 \<or> b = 1) s s"
    by (simp add: list_all2_same)
  moreover have "map2 (\<lambda>a b. if a = 1 then b else a) s s = s"
    by (induction s) simp_all
  ultimately show ?thesis
    by (simp add: broadcast_shapes_def pad_shape_def)
qed

lemma bidx_valid: "list_all2 (<) idx s \<Longrightarrow> bidx s idx = idx"
proof -
  assume a: "list_all2 (<) idx s"
  then have len: "length idx = length s" by (rule list_all2_lengthD)
  have "map2 (\<lambda>n i. if n = 1 then 0 else i) s idx = idx"
    using a by (induction idx s rule: list_all2_induct) auto
  then show ?thesis by (simp add: bidx_def len)
qed

lemma tbinop_same:
  assumes "shape a = s" and "shape b = s"
  shows "\<exists>r. tbinop f a b = Inr r \<and> shape r = s \<and> wf_tensor r \<and>
           (\<forall>idx. list_all2 (<) idx s \<longrightarrow> elem r idx = f (elem a idx) (elem b idx))"
  using assms by (simp add: tbinop_def broadcast_same elem_tabulate bidx_valid)

lemma index0_1d:
  assumes "shape y = [n]" and "wf_tensor y" and "list_all (\<lambda>i. i < n) ix"
  shows "index0 y ix = Inr \<lparr>shape = [length ix], data = map (\<lambda>i. data y ! i) ix\<rparr>"
proof -
  have "map (\<lambda>idx. elem y (ix ! hd idx # tl idx)) (indices [length ix]) =
        map (\<lambda>j. data y ! (ix ! j)) [0..<length ix]"
    using assms(1) by (simp add: indices_1d comp_def elem_def numel_def)
  also have "\<dots> = map (\<lambda>i. data y ! i) (map (\<lambda>j. ix ! j) [0..<length ix])"
    by (simp add: comp_def)
  also have "\<dots> = map (\<lambda>i. data y ! i) ix"
    by (simp add: map_nth)
  finally show ?thesis
    using assms by (simp add: index0_def tabulate_def)
qed

lemma index0_elem:
  assumes "shape X = n # s" and "list_all (\<lambda>i. i < n) ix"
  shows "\<exists>r. index0 X ix = Inr r \<and> shape r = length ix # s \<and> wf_tensor r \<and>
           (\<forall>idx. list_all2 (<) idx (length ix # s) \<longrightarrow> elem r idx = elem X (ix ! hd idx # tl idx))"
  using assms by (simp add: index0_def elem_tabulate)

lemma select1_shape:
  assumes "select1 t j = Inr z"
  shows "\<exists>n k s. shape t = n # k # s \<and> j < k \<and> shape z = n # s"
  using assms by (auto simp: select1_def split: list.splits if_splits)

lemma squeeze_last_append: "shape y = bs @ [1] \<Longrightarrow> shape (squeeze_last y) = bs"
  by (simp add: squeeze_last_def)

lemma rbind_Inr_iff: "rbind m f = Inr y \<longleftrightarrow> (\<exists>x. m = Inr x \<and> f x = Inr y)"
  by (cases m) simp_all

lemma torch_cat_scalar: "shape a = [] \<Longrightarrow> torch_cat [a, b] = Inl RuntimeError"
  by (simp add: torch_cat_def)

lemma endpoints_1d:
  assumes "shape t = [n]" and "endpoints t = Inr (t0, t1)"
  shows "shape t0 = []" and "shape t1 = []"
  using assms
  by (auto simp: endpoints_def select0_def select_last_def rbind_Inr_iff split: if_splits)

section \<open>Properties of the linear layers and the vector field\<close>

lemma length_affine: "length (affine l x) = out_features l"
  by (simp add: affine_def)

lemma Linear_forward_ok:
  assumes "shape x = bs @ [in_features l]"
  shows "Linear_forward l x =
           Inr \<lparr>shape = bs @ [out_features l],
                data = concat (map (\<lambda>r. affine l (row (in_features l) r (data x))) [0..<numel bs])\<rparr>"
  using assms by (simp add: Linear_forward_def)

lemma Linear_forward_shape:
  assumes "Linear_forward l x = Inr y"
  shows "shape x \<noteq> []" and "last (shape x) = in_features l"
    and "shape y = butlast (shape x) @ [out_features l]"
  using assms by (auto simp: Linear_forward_def split: if_splits)

lemma CDEFunc_forward_ok:
  assumes "shape z = bs @ [hc]"
  shows "CDEFunc_forward (CDEFunc_init ic hc p1 p2) z =
           Inr \<lparr>shape = bs @ [hc, ic],
                data = concat (map (\<lambda>r. affine (Linear_init 128 (ic * hc) p2)
                                 (row 128 r (map tanh (concat (map (\<lambda>r. affine (Linear_init hc 128 p1)
                                     (row hc r (data z))) [0..<numel bs])))))
                               [0..<numel bs])\<rparr>"
proof -
  let ?l1 = "Linear_init hc 128 p1" and ?l2 = "Linear_init 128 (ic * hc) p2"
  have w1: "in_features ?l1 = hc" "out_features ?l1 = 128"
    and w2: "in_features ?l2 = 128" "out_features ?l2 = ic * hc"
    by (simp_all add: Linear_init_def)
  have s1: "Linear_forward ?l1 z = Inr \<lparr>shape = bs @ [128],
      data = concat (map (\<lambda>r. affine ?l1 (row hc r (data z))) [0..<numel bs])\<rparr>"
    using Linear_forward_ok [of z bs ?l1] assms w1 by simp
  have s2: "Linear_forward ?l2 (torch_tanh \<lparr>shape = bs @ [128],
      data = concat (map (\<lambda>r. affine ?l1 (row hc r (data z))) [0..<numel bs])\<rparr>) =
    Inr \<lparr>shape = bs @ [ic * hc],
      data = concat (map (\<lambda>r. affine ?l2 (row 128 r (map tanh
         (concat (map (\<lambda>r. affine ?l1 (row hc r (data z))) [0..<numel bs]))))) [0..<numel bs])\<rparr>"
    using Linear_forward_ok [of _ bs ?l2] w2 by (simp add: torch_tanh_def)
  have sel: "cf_linear1 (CDEFunc_init ic hc p1 p2) = ?l1" "cf_linear2 (CDEFunc_init ic hc p1 p2) = ?l2"
    "cf_hidden_channels (CDEFunc_init ic hc p1 p2) = hc" "cf_input_channels (CDEFunc_init ic hc p1 p2) = ic"
    by (simp_all add: CDEFunc_init_def)
  show ?thesis
    unfolding CDEFunc_forward_def sel
    by (simp only: s1 s2 rbind.simps) (simp add: view_def numel_append numel_def mult.commute)
qed

text \<open>
  C10. The reshape at the end of \<^verbatim>\<open>CDEFunc.forward\<close> cannot fail. For a module built by
  the constructor (with any parameter values) and every input with at least one dimension
  whose last dimension is \<open>hidden_channels\<close>, the first layer accepts the input, the second
  layer returns a tensor whose last dimension is \<open>input_channels * hidden_channels\<close>, the
  view of that tensor into \<open>(..., hidden_channels, input_channels)\<close> is valid, and the call
  returns a tensor: no error branch is taken.
\<close>

theorem CDEFunc_view_never_fails:
  assumes "shape z \<noteq> []" and "last (shape z) = hc"
  shows "\<exists>h y r.
           Linear_forward (cf_linear1 (CDEFunc_init ic hc p1 p2)) z = Inr h \<and>
           Linear_forward (cf_linear2 (CDEFunc_init ic hc p1 p2)) (torch_tanh h) = Inr y \<and>
           shape y \<noteq> [] \<and> last (shape y) = ic * hc \<and>
           view y (butlast (shape y) @ [hc, ic]) = Inr r \<and>
           CDEFunc_forward (CDEFunc_init ic hc p1 p2) z = Inr r"
proof -
  from assms have sz: "shape z = butlast (shape z) @ [hc]"
    by (metis append_butlast_last_id)
  let ?bs = "butlast (shape z)"
  let ?l1 = "Linear_init hc 128 p1" and ?l2 = "Linear_init 128 (ic * hc) p2"
  have w1: "in_features ?l1 = hc" "out_features ?l1 = 128"
    and w2: "in_features ?l2 = 128" "out_features ?l2 = ic * hc"
    by (simp_all add: Linear_init_def)
  obtain h where h: "Linear_forward ?l1 z = Inr h" "shape h = ?bs @ [128]"
    using Linear_forward_ok [of z ?bs ?l1] sz w1 by simp
  have "shape (torch_tanh h) = ?bs @ [in_features ?l2]"
    using h(2) w2 by (simp add: torch_tanh_def)
  then obtain y where y: "Linear_forward ?l2 (torch_tanh h) = Inr y" "shape y = ?bs @ [ic * hc]"
    using Linear_forward_ok [of "torch_tanh h" ?bs ?l2] w2 by simp
  have v: "view y (butlast (shape y) @ [hc, ic]) = Inr (y\<lparr>shape := ?bs @ [hc, ic]\<rparr>)"
    using y(2) by (simp add: view_def numel_append numel_def mult.commute)
  have "CDEFunc_forward (CDEFunc_init ic hc p1 p2) z = Inr (y\<lparr>shape := ?bs @ [hc, ic]\<rparr>)"
    unfolding CDEFunc_forward_def using h(1) y v by (simp add: CDEFunc_init_def)
  then show ?thesis
    using h(1) y v by (simp add: CDEFunc_init_def)
qed

theorem CDEFunc_view_never_fails_witness:
  "shape (torch_zeros [3, 8]) \<noteq> [] \<and> last (shape (torch_zeros [3, 8])) = 8 \<and>
   (\<exists>r. CDEFunc_forward (CDEFunc_init 2 8 (zero_params 8 128) (zero_params 128 16))
           (torch_zeros [3, 8]) = Inr r)"
proof -
  have s: "shape (torch_zeros [3, 8]) \<noteq> []" "last (shape (torch_zeros [3, 8])) = 8"
    by (simp_all add: torch_zeros_def)
  from CDEFunc_view_never_fails [OF s, of 2 "zero_params 8 128" "zero_params 128 16"]
  show ?thesis using s by blast
qed

text \<open>
  C4. For every input whose shape is a batch prefix \<open>bs\<close> followed by \<open>hidden_channels\<close>,
  \<^verbatim>\<open>CDEFunc.forward\<close> returns a tensor of shape \<open>bs @ [hidden_channels, input_channels]\<close>.
  For every batch position \<open>i\<close>, its matrix (the \<open>i\<close>-th block of
  \<open>hidden_channels * input_channels\<close> elements) is the affine map \<open>128 \<rightarrow> H * C\<close> of the
  pointwise hyperbolic tangent of the affine map \<open>H \<rightarrow> 128\<close> of the \<open>i\<close>-th input vector.
\<close>

theorem CDEFunc_forward_shape:
  assumes "shape z = bs @ [hc]"
  shows "\<exists>r. CDEFunc_forward (CDEFunc_init ic hc p1 p2) z = Inr r \<and>
             shape r = bs @ [hc, ic] \<and>
             length (data r) = numel bs * (hc * ic) \<and>
             (\<forall>i<numel bs. row (hc * ic) i (data r) =
                affine (Linear_init 128 (ic * hc) p2)
                  (map tanh (affine (Linear_init hc 128 p1) (row hc i (data z)))))"
proof -
  let ?l1 = "Linear_init hc 128 p1" and ?l2 = "Linear_init 128 (ic * hc) p2"
  let ?h = "concat (map (\<lambda>r. affine ?l1 (row hc r (data z))) [0..<numel bs])"
  let ?g = "\<lambda>r. affine ?l2 (row 128 r (map tanh ?h))"
  have o1: "out_features ?l1 = 128" and o2: "out_features ?l2 = hc * ic"
    by (simp_all add: Linear_init_def mult.commute)
  have len: "\<And>r. length (?g r) = hc * ic"
    by (simp add: length_affine o2)
  have inner: "row 128 i ?h = affine ?l1 (row hc i (data z))" if "i < numel bs" for i
    using that by (intro row_concat_blocks) (simp_all add: length_affine o1)
  have blocks: "row (hc * ic) i (concat (map ?g [0..<numel bs])) =
      affine ?l2 (map tanh (affine ?l1 (row hc i (data z))))" if "i < numel bs" for i
  proof -
    have "row (hc * ic) i (concat (map ?g [0..<numel bs])) = ?g i"
      using that len by (intro row_concat_blocks) simp_all
    then show ?thesis
      using inner [OF that] by (simp add: row_map)
  qed
  have total: "length (concat (map ?g [0..<numel bs])) = numel bs * (hc * ic)"
    using len by (intro length_concat_blocks) simp
  show ?thesis
    using CDEFunc_forward_ok [OF assms, of ic p1 p2] blocks total by simp
qed

theorem CDEFunc_forward_shape_witness:
  "shape (torch_zeros [3, 8]) = [3] @ [8] \<and>
   (\<exists>r. CDEFunc_forward (CDEFunc_init 2 8 (zero_params 8 128) (zero_params 128 16))
           (torch_zeros [3, 8]) = Inr r \<and> shape r = [3, 8, 2])"
proof -
  have s: "shape (torch_zeros [3, 8]) = [3] @ [8]"
    by (simp add: torch_zeros_def)
  from CDEFunc_forward_shape [OF s, of 2 "zero_params 8 128" "zero_params 128 16"]
  show ?thesis using s by auto
qed

section \<open>Properties of the data generator\<close>

lemma length_draws: "length (fst (draws R n g)) = n"
  by (induction n arbitrary: g) (simp_all add: split_beta Let_def)

lemma torch_rand_shape: "shape (fst (torch_rand R s g)) = s"
  and torch_rand_length: "length (data (fst (torch_rand R s g))) = numel s"
  by (simp_all add: torch_rand_def split_beta length_draws)

lemma map_threshold:
  "k \<le> n \<Longrightarrow> map (\<lambda>i. if i < k then a else b) [0..<n] = replicate k a @ replicate (n - k) b"
  by (auto intro!: nth_equalityI simp: nth_append)

lemma labels_eq: "labels = Inr \<lparr>shape = [128], data = replicate 64 1 @ replicate 64 0\<rparr>"
proof -
  have "map (\<lambda>i. if i < 64 then 1 else elem (torch_zeros [128]) [i]) [0..<128] =
        map (\<lambda>i. if i < 64 then 1 else (0::real)) [0..<128]"
    by (intro map_cong) (simp_all add: elem_zeros)
  also have "\<dots> = replicate 64 1 @ replicate 64 0"
    using map_threshold [of 64 128 "1::real" 0] by simp
  finally have "map (\<lambda>i. if i < 64 then 1 else elem (torch_zeros [128]) [i]) [0..<128] =
      replicate 64 1 @ replicate 64 0" .
  moreover have "shape (torch_zeros [128]) = [128]"
    by (simp add: torch_zeros_def)
  ultimately show ?thesis
    by (simp add: labels_def iset_rows_def tabulate_def indices_1d comp_def)
qed

lemma spirals_elems:
  assumes u: "torch_rand R [128] g0 = (u, g1)" and v: "torch_rand R [128, 100, 2] g1 = (v, g2)"
  shows "\<exists>X. spirals R g0 = (Inr X, g2) \<and> shape X = [128, 100, 2] \<and> wf_tensor X \<and>
           (\<forall>j<128. \<forall>k<100.
              elem X [j, k, 0] =
                (if j < 64 then cos (spiral_time u j k) / (1 + 0.5 * spiral_time u j k) * (- 1)
                 else cos (spiral_time u j k) / (1 + 0.5 * spiral_time u j k))
                + (0.06 * elem v [j, k, 0] - 0.03) \<and>
              elem X [j, k, 1] =
                sin (spiral_time u j k) / (1 + 0.5 * spiral_time u j k)
                + (0.06 * elem v [j, k, 1] - 0.03))"
proof -
  define linspace where "linspace = torch_linspace 0 (4 * pi) 100"
  define start where "start = tmap (\<lambda>x. x * 2 * pi) u"
  have su: "shape u = [128]" and wu: "wf_tensor u"
    using torch_rand_shape [of R "[128]" g0] torch_rand_length [of R "[128]" g0] u
    by (simp_all add: wf_tensor_def)
  have sv: "shape v = [128, 100, 2]" and wv: "wf_tensor v"
    using torch_rand_shape [of R "[128, 100, 2]" g1] torch_rand_length [of R "[128, 100, 2]" g1] v
    by (simp_all add: wf_tensor_def)
  define start1 where "start1 = start\<lparr>shape := [128, 1]\<rparr>"
  define linspace0 where "linspace0 = linspace\<lparr>shape := [1, 100]\<rparr>"
  have e1: "unsqueeze 1 start = Inr start1"
    by (simp add: unsqueeze_def start_def start1_def su)
  have e2: "unsqueeze 0 linspace = Inr linspace0"
    by (simp add: unsqueeze_def linspace_def linspace0_def torch_linspace_def)
  define times where "times = tabulate [128, 100]
      (\<lambda>idx. elem start1 (bidx [128, 1] idx) + elem linspace0 (bidx [1, 100] idx))"
  have e3: "tbinop (+) start1 linspace0 = Inr times"
    by (simp add: tbinop_def broadcast_shapes_def pad_shape_def times_def start1_def linspace0_def)
  have el_start: "elem start1 [j, 0] = elem u [j] * 2 * pi" if "j < 128" for j
    using that wu su by (simp add: elem_def start1_def start_def tmap_def numel_def wf_tensor_def)
  have el_lin: "elem linspace0 [0, k] = 0 + real k * ((4 * pi - 0) / real (100 - 1))" if "k < 100" for k
  proof -
    have "elem linspace0 [0, k] = elem linspace [k]"
      by (simp add: elem_def linspace0_def numel_def linspace_def torch_linspace_def)
    then show ?thesis
      using that elem_tabulate [of "[k]" "[100]"] by (simp add: linspace_def torch_linspace_def)
  qed
  have el_times: "elem times [j, k] = spiral_time u j k" if "j < 128" "k < 100" for j k
    using that el_start el_lin
    by (simp add: times_def elem_tabulate bidx_def spiral_time_def)
  have st: "shape times = [128, 100]" and wt: "wf_tensor times"
    by (simp_all add: times_def)
  define den where "den = tmap (\<lambda>x. 1 + 0.5 * x) times"
  obtain x0 where e4: "tbinop (/) (tmap cos times) den = Inr x0" and sx0: "shape x0 = [128, 100]"
    and wx0: "wf_tensor x0"
    and el_x0: "\<And>idx. list_all2 (<) idx [128, 100] \<Longrightarrow> elem x0 idx = elem (tmap cos times) idx / elem den idx"
    using tbinop_same [of "tmap cos times" "[128, 100]" den "(/)"] st by (auto simp: den_def)
  define x_pos where "x_pos = tabulate [128, 100] (\<lambda>idx. if hd idx < 64 then elem x0 idx * (- 1) else elem x0 idx)"
  have e5: "imul_rows 64 (- 1) x0 = Inr x_pos"
    by (simp add: imul_rows_def sx0 x_pos_def)
  obtain y_pos where e6: "tbinop (/) (tmap sin times) den = Inr y_pos" and sy: "shape y_pos = [128, 100]"
    and wy: "wf_tensor y_pos"
    and el_y: "\<And>idx. list_all2 (<) idx [128, 100] \<Longrightarrow> elem y_pos idx = elem (tmap sin times) idx / elem den idx"
    using tbinop_same [of "tmap sin times" "[128, 100]" den "(/)"] st by (auto simp: den_def)
  define pos where "pos = tabulate [128, 100, 2]
      (\<lambda>idx. elem ([x_pos, y_pos] ! (idx ! 2)) (take 2 idx @ drop (Suc 2) idx))"
  have e7: "torch_stack [x_pos, y_pos] 2 = Inr pos"
    by (simp add: torch_stack_def x_pos_def sy pos_def numeral_2_eq_2)
  define noise where "noise = tmap (\<lambda>x. 0.06 * x - 0.03) v"
  obtain X where e8: "tbinop (+) pos noise = Inr X" and sX: "shape X = [128, 100, 2]" and wX: "wf_tensor X"
    and el_X: "\<And>idx. list_all2 (<) idx [128, 100, 2] \<Longrightarrow> elem X idx = elem pos idx + elem noise idx"
    using tbinop_same [of pos "[128, 100, 2]" noise "(+)"] sv by (auto simp: pos_def noise_def)
  have run: "spirals R g0 = (Inr X, g2)"
    unfolding spirals_def
    by (simp only: Let_def u v prod.case linspace_def [symmetric] start_def [symmetric]
        den_def [symmetric] noise_def [symmetric] e1 e2 e3 e4 e5 e6 e7 e8 rbind.simps sum.case)
  have el_den: "elem den [j, k] = 1 + 0.5 * spiral_time u j k" if "j < 128" "k < 100" for j k
    using that el_times wt st by (simp add: den_def elem_tmap)
  have el_xpos: "elem x_pos [j, k] =
      (if j < 64 then cos (spiral_time u j k) / (1 + 0.5 * spiral_time u j k) * (- 1)
       else cos (spiral_time u j k) / (1 + 0.5 * spiral_time u j k))" if "j < 128" "k < 100" for j k
    using that el_x0 [of "[j, k]"] el_den el_times wt st
    by (simp add: x_pos_def elem_tabulate elem_tmap)
  have el_ypos: "elem y_pos [j, k] = sin (spiral_time u j k) / (1 + 0.5 * spiral_time u j k)"
    if "j < 128" "k < 100" for j k
    using that el_y [of "[j, k]"] el_den el_times wt st by (simp add: elem_tmap)
  have el_noise: "elem noise [j, k, c] = 0.06 * elem v [j, k, c] - 0.03"
    if "j < 128" "k < 100" "c < 2" for j k c
    using that wv sv by (simp add: noise_def elem_tmap)
  have "elem X [j, k, 0] =
          (if j < 64 then cos (spiral_time u j k) / (1 + 0.5 * spiral_time u j k) * (- 1)
           else cos (spiral_time u j k) / (1 + 0.5 * spiral_time u j k))
          + (0.06 * elem v [j, k, 0] - 0.03) \<and>
        elem X [j, k, 1] =
          sin (spiral_time u j k) / (1 + 0.5 * spiral_time u j k)
          + (0.06 * elem v [j, k, 1] - 0.03)" if "j < 128" "k < 100" for j k
    using that el_X [of "[j, k, 0]"] el_X [of "[j, k, 1]"] el_xpos el_ypos el_noise
    by (simp add: pos_def elem_tabulate)
  then show ?thesis
    using run sX wX by blast
qed

lemma randperm_okD:
  assumes "randperm_ok R" and "randperm R n g = (perm, g')"
  shows "mset perm = mset [0..<n]" and "length perm = n" and "list_all (\<lambda>i. i < n) perm"
proof -
  show m: "mset perm = mset [0..<n]"
    using assms by (metis fst_conv randperm_ok_def)
  show "length perm = n"
    using m by (metis length_upt mset_eq_length minus_nat.diff_0)
  have "set perm = set [0..<n]"
    using m by (rule mset_eq_setD)
  then show "list_all (\<lambda>i. i < n) perm"
    by (simp add: list_all_iff)
qed

lemma get_data_run:
  assumes ok: "randperm_ok R"
    and u: "torch_rand R [128] g0 = (u, g1)" and v: "torch_rand R [128, 100, 2] g1 = (v, g2)"
    and p: "randperm R 128 g2 = (perm, g3)"
  shows "\<exists>X0 X. spirals R g0 = (Inr X0, g2) \<and> index0 X0 perm = Inr X \<and>
           get_data R g0 =
             (Inr (torch_linspace 0 99 100, X,
                   \<lparr>shape = [128], data = map (\<lambda>i. (replicate 64 1 @ replicate 64 0) ! i) perm\<rparr>), g3)"
proof -
  obtain X0 where X0: "spirals R g0 = (Inr X0, g2)" "shape X0 = [128, 100, 2]"
    using spirals_elems [OF u v] by blast
  have perm: "length perm = 128" "list_all (\<lambda>i. i < 128) perm"
    using randperm_okD [OF ok p] by simp_all
  obtain X where X: "index0 X0 perm = Inr X"
    using index0_elem [OF X0(2) perm(2)] by blast
  have y: "index0 \<lparr>shape = [128], data = replicate 64 1 @ replicate 64 0\<rparr> perm =
      Inr \<lparr>shape = [length perm], data = map (\<lambda>i. (replicate 64 1 @ replicate 64 0) ! i) perm\<rparr>"
    using index0_1d [of "\<lparr>shape = [128], data = replicate 64 1 @ replicate 64 0\<rparr>" 128 perm] perm(2)
    by (simp add: wf_tensor_def numel_def)
  show ?thesis
    using X0(1) X unfolding get_data_def
    by (simp add: labels_eq p y perm(1))
qed

lemma get_data_times:
  "get_data R g = (Inr (t, X, y), g') \<Longrightarrow> t = torch_linspace 0 99 100"
  unfolding get_data_def
  by (auto simp: rbind_Inr_iff split: prod.splits sum.splits)

lemma rng0_ok: "randperm_ok rng0"
  by (simp add: randperm_ok_def rng0_def)

text \<open>
  C3. For every dataset of \<^verbatim>\<open>get_data\<close>, with a generator whose \<^verbatim>\<open>randperm\<close> returns
  permutations: the 128 labels before the permutation hold exactly 64 ones and 64 zeros,
  \<^verbatim>\<open>get_data\<close> returns, and the returned labels are the same multiset as the labels before
  the permutation, so only their order has changed.
\<close>

theorem labels_balanced:
  assumes "randperm_ok R"
  shows "\<exists>y0 t X y g'.
           labels = Inr y0 \<and> shape y0 = [128] \<and> length (data y0) = 128 \<and>
           count (mset (data y0)) 1 = 64 \<and> count (mset (data y0)) 0 = 64 \<and>
           get_data R g0 = (Inr (t, X, y), g') \<and> shape y = [128] \<and>
           mset (data y) = mset (data y0)"
proof -
  obtain u g1 where u: "torch_rand R [128] g0 = (u, g1)" by (cases "torch_rand R [128] g0")
  obtain v g2 where v: "torch_rand R [128, 100, 2] g1 = (v, g2)" by (cases "torch_rand R [128, 100, 2] g1")
  obtain perm g3 where p: "randperm R 128 g2 = (perm, g3)" by (cases "randperm R 128 g2")
  let ?d = "replicate 64 (1::real) @ replicate 64 0"
  obtain X where run: "get_data R g0 =
      (Inr (torch_linspace 0 99 100, X, \<lparr>shape = [128], data = map (\<lambda>i. ?d ! i) perm\<rparr>), g3)"
    using get_data_run [OF assms u v p] by blast
  have "mset (map (\<lambda>i. ?d ! i) perm) = image_mset (\<lambda>i. ?d ! i) (mset perm)"
    by simp
  also have "\<dots> = image_mset (\<lambda>i. ?d ! i) (mset [0..<128])"
    using randperm_okD(1) [OF assms p] by simp
  also have "\<dots> = mset (map (\<lambda>i. ?d ! i) [0..<length ?d])"
    by simp
  also have "\<dots> = mset ?d"
    by (simp only: map_nth)
  finally have m: "mset (map (\<lambda>i. ?d ! i) perm) = mset ?d" .
  have c: "count (mset ?d) 1 = 64" "count (mset ?d) 0 = 64"
    by simp_all
  show ?thesis
    using run m c by (simp add: labels_eq)
qed

theorem labels_balanced_witness:
  "randperm_ok rng0 \<and>
   (\<exists>y0 t X y g'. labels = Inr y0 \<and> count (mset (data y0)) 1 = 64 \<and>
      count (mset (data y0)) 0 = 64 \<and>
      get_data rng0 () = (Inr (t, X, y), g') \<and> mset (data y) = mset (data y0))"
  using labels_balanced [OF rng0_ok, of "()"] rng0_ok by blast

text \<open>
  C9. In every dataset of \<^verbatim>\<open>get_data\<close>, with a generator whose \<^verbatim>\<open>randperm\<close> returns
  permutations, the one permutation \<open>perm\<close> indexes both tensors: sample \<open>i\<close> of the result
  is generated sample \<open>perm ! i\<close>. Its label is 1 exactly when \<open>perm ! i < 64\<close>, that is when
  it is one of the first 64 generated samples, and 0 otherwise; its horizontal channel is
  the sign-flipped spiral of generated sample \<open>perm ! i\<close> plus that sample's noise exactly
  when its label is 1, and the unflipped one otherwise; its vertical channel is never flipped.
\<close>

theorem labels_follow_samples:
  assumes "randperm_ok R"
  shows "case get_data_draws R g0 of (u, v, perm) \<Rightarrow>
           \<exists>t X y g'. get_data R g0 = (Inr (t, X, y), g') \<and>
             shape X = [128, 100, 2] \<and> shape y = [128] \<and>
             (\<forall>i<128. perm ! i < 128 \<and>
                (elem y [i] = 1 \<longleftrightarrow> perm ! i < 64) \<and>
                (elem y [i] = 0 \<longleftrightarrow> 64 \<le> perm ! i) \<and>
                (\<forall>k<100.
                   elem X [i, k, 0] =
                     (if elem y [i] = 1 then x_spiral u (perm ! i) k * (- 1) else x_spiral u (perm ! i) k)
                     + (0.06 * elem v [perm ! i, k, 0] - 0.03) \<and>
                   elem X [i, k, 1] =
                     y_spiral u (perm ! i) k + (0.06 * elem v [perm ! i, k, 1] - 0.03)))"
proof -
  obtain u g1 where u: "torch_rand R [128] g0 = (u, g1)" by (cases "torch_rand R [128] g0")
  obtain v g2 where v: "torch_rand R [128, 100, 2] g1 = (v, g2)" by (cases "torch_rand R [128, 100, 2] g1")
  obtain perm g3 where p: "randperm R 128 g2 = (perm, g3)" by (cases "randperm R 128 g2")
  have draws: "get_data_draws R g0 = (u, v, perm)"
    by (simp add: get_data_draws_def u v p)
  let ?d = "replicate 64 (1::real) @ replicate 64 0"
  let ?y = "\<lparr>shape = [128], data = map (\<lambda>i. ?d ! i) perm\<rparr>"
  obtain X0 X where s: "spirals R g0 = (Inr X0, g2)" and ix: "index0 X0 perm = Inr X"
    and run: "get_data R g0 = (Inr (torch_linspace 0 99 100, X, ?y), g3)"
    using get_data_run [OF assms u v p] by blast
  obtain X0' where s': "spirals R g0 = (Inr X0', g2)" and sh0: "shape X0' = [128, 100, 2]"
    and el0: "\<And>j k. j < 128 \<Longrightarrow> k < 100 \<Longrightarrow>
       elem X0' [j, k, 0] =
         (if j < 64 then cos (spiral_time u j k) / (1 + 0.5 * spiral_time u j k) * (- 1)
          else cos (spiral_time u j k) / (1 + 0.5 * spiral_time u j k))
         + (0.06 * elem v [j, k, 0] - 0.03) \<and>
       elem X0' [j, k, 1] =
         sin (spiral_time u j k) / (1 + 0.5 * spiral_time u j k) + (0.06 * elem v [j, k, 1] - 0.03)"
    using spirals_elems [OF u v] by blast
  have same: "X0' = X0" using s s' by simp
  have perm: "length perm = 128" "list_all (\<lambda>i. i < 128) perm"
    using randperm_okD [OF assms p] by simp_all
  have inr: "perm ! i < 128" if "i < 128" for i
    using perm that by (simp add: list_all_length)
  obtain X' where ix': "index0 X0 perm = Inr X'" and shX: "shape X' = [length perm, 100, 2]"
    and elX: "\<And>idx. list_all2 (<) idx [length perm, 100, 2] \<Longrightarrow> elem X' idx = elem X0 (perm ! hd idx # tl idx)"
    using index0_elem [of X0 128 "[100, 2]" perm] sh0 same perm(2) by auto
  have sameX: "X' = X" using ix ix' by simp
  have ely: "elem ?y [i] = (if perm ! i < 64 then 1 else 0)" if "i < 128" for i
    using that perm(1) inr [OF that] by (simp add: elem_def numel_def nth_append)
  have main: "perm ! i < 128 \<and>
        (elem ?y [i] = 1 \<longleftrightarrow> perm ! i < 64) \<and>
        (elem ?y [i] = 0 \<longleftrightarrow> 64 \<le> perm ! i) \<and>
        (\<forall>k<100.
           elem X [i, k, 0] =
             (if elem ?y [i] = 1 then x_spiral u (perm ! i) k * (- 1) else x_spiral u (perm ! i) k)
             + (0.06 * elem v [perm ! i, k, 0] - 0.03) \<and>
           elem X [i, k, 1] =
             y_spiral u (perm ! i) k + (0.06 * elem v [perm ! i, k, 1] - 0.03))" if i: "i < 128" for i
  proof -
    have a: "elem X [i, k, c] = elem X0 [perm ! i, k, c]" if "k < 100" "c < 2" for k c
      using elX [of "[i, k, c]"] that i perm(1) sameX by simp
    show ?thesis
      using inr [OF i] ely [OF i] a el0 same
      by (auto simp: x_spiral_def y_spiral_def)
  qed
  show ?thesis
    unfolding draws prod.case
    using run main shX sameX perm(1) by auto
qed

theorem labels_follow_samples_witness:
  "randperm_ok rng0 \<and>
   (\<exists>t X y g'. get_data rng0 () = (Inr (t, X, y), g') \<and> shape y = [128] \<and>
      elem y [0] = 0 \<and> elem y [127] = 1)"
proof -
  have r: "rev [0..<128] ! 0 = 127" "rev [0..<128] ! 127 = 0"
    by (simp_all add: rev_nth)
  have d: "snd (snd (get_data_draws rng0 ())) = rev [0..<128]"
    by (simp add: get_data_draws_def rng0_def split_beta)
  show ?thesis
    using labels_follow_samples [OF rng0_ok, of "()"] r d rng0_ok
    by (auto simp: split_beta)
qed

text \<open>
  C8. The tensors returned by \<^verbatim>\<open>get_data\<close> are a function of what it reads from the
  generator. The generator state is the only input of \<open>get_data\<close>, so two runs from the
  same state are the same term; more than that, two runs, even of different generators in
  different states, that read the same starting phases, noise and permutation return the
  same times, trajectories and labels (or the same exception).
\<close>

theorem get_data_deterministic:
  assumes "get_data_draws R g = get_data_draws R' g'"
  shows "fst (get_data R g) = fst (get_data R' g')"
proof -
  obtain u g1 where u: "torch_rand R [128] g = (u, g1)" by (cases "torch_rand R [128] g")
  obtain v g2 where v: "torch_rand R [128, 100, 2] g1 = (v, g2)" by (cases "torch_rand R [128, 100, 2] g1")
  obtain perm g3 where p: "randperm R 128 g2 = (perm, g3)" by (cases "randperm R 128 g2")
  obtain u' g1' where u': "torch_rand R' [128] g' = (u', g1')" by (cases "torch_rand R' [128] g'")
  obtain v' g2' where v': "torch_rand R' [128, 100, 2] g1' = (v', g2')" by (cases "torch_rand R' [128, 100, 2] g1'")
  obtain perm' g3' where p': "randperm R' 128 g2' = (perm', g3')" by (cases "randperm R' 128 g2'")
  have eq: "u = u'" "v = v'" "perm = perm'"
    using assms by (simp_all add: get_data_draws_def u v p u' v' p')
  obtain X0 where X0: "spirals R g = (Inr X0, g2)"
    using spirals_elems [OF u v] by blast
  obtain X0' where X0': "spirals R' g' = (Inr X0', g2')"
    using spirals_elems [OF u' v'] by blast
  have "fst (spirals R g) = fst (spirals R' g')"
    unfolding spirals_def by (simp add: u v u' v' eq Let_def split: sum.splits)
  then have "X0 = X0'" using X0 X0' by simp
  then show ?thesis
    unfolding get_data_def by (simp add: X0 X0' labels_eq p p' eq)
qed

theorem get_data_deterministic_witness:
  "get_data_draws rng0 () = get_data_draws rng1 7 \<and>
   fst (get_data rng0 ()) = fst (get_data rng1 7)"
proof -
  have "fst (draws rng0 n g) = replicate n 0" for n g
    by (induction n arbitrary: g) (simp_all add: rng0_def split_beta)
  moreover have "fst (draws rng1 n g) = replicate n 0" for n g
    by (induction n arbitrary: g) (simp_all add: rng1_def split_beta)
  ultimately have d: "get_data_draws rng0 () = get_data_draws rng1 7"
    by (simp add: get_data_draws_def torch_rand_def split_beta) (simp add: rng0_def rng1_def)
  then show ?thesis
    using get_data_deterministic [of rng0 "()" rng1 7] by simp
qed

section \<open>Properties of the model\<close>

lemma NeuralCDE_forward_Inr:
  "NeuralCDE_forward L m coeffs initial_t final_t = Inr y \<longleftrightarrow>
     (\<exists>cubic_spline x0 z0 t z_T z.
        NaturalCubicSpline L coeffs = Inr cubic_spline \<and>
        evaluate L cubic_spline initial_t = Inr x0 \<and>
        Linear_forward (nc_initial m) x0 = Inr z0 \<and>
        torch_cat [initial_t, final_t] = Inr t \<and>
        cdeint L cubic_spline (CDEFunc_forward (nc_func m)) z0 t = Inr z_T \<and>
        select1 z_T 1 = Inr z \<and>
        Linear_forward (nc_linear m) z = Inr y)"
  unfolding NeuralCDE_forward_def rbind_Inr_iff by blast

lemma forward_toy:
  "\<exists>y. NeuralCDE_forward lib0 model0 [path0] time0 time1 = Inr y \<and> shape y = [3, 1]"
proof -
  have m: "nc_initial model0 = Linear_init 2 8 (zero_params 2 8)"
    "nc_linear model0 = Linear_init 8 1 (zero_params 8 1)"
    by (simp_all add: model0_def NeuralCDE_init_def)
  have e0: "NaturalCubicSpline lib0 [path0] = Inr path0"
    by (simp add: lib0_def)
  obtain x0 where x0: "evaluate lib0 path0 time0 = Inr x0" "shape x0 = [3] @ [2]"
    by (simp add: lib0_def select1_def path0_def torch_zeros_def)
  obtain z0 where z0: "Linear_forward (nc_initial model0) x0 = Inr z0" "shape z0 = [3, 8]"
    using Linear_forward_ok [of x0 "[3]" "Linear_init 2 8 (zero_params 2 8)"] x0(2)
    by (simp add: m Linear_init_def)
  obtain t where t: "torch_cat [time0, time1] = Inr t" "shape t = [2]"
    by (simp add: torch_cat_def time0_def time1_def)
  obtain z_T where zT: "cdeint lib0 path0 (CDEFunc_forward (nc_func model0)) z0 t = Inr z_T"
      "shape z_T = [3, 2, 8]"
    using z0(2) t(2) by (simp add: lib0_def)
  obtain z where z: "select1 z_T 1 = Inr z" "shape z = [3] @ [8]"
    using zT(2) by (simp add: select1_def)
  obtain y where y: "Linear_forward (nc_linear model0) z = Inr y" "shape y = [3, 1]"
    using Linear_forward_ok [of z "[3]" "Linear_init 8 1 (zero_params 8 1)"] z(2)
    by (simp add: m Linear_init_def)
  have "NeuralCDE_forward lib0 model0 [path0] time0 time1 = Inr y"
    unfolding NeuralCDE_forward_Inr using e0 x0(1) z0(1) t(1) zT(1) z(1) y(1) by blast
  then show ?thesis using y(2) by blast
qed

text \<open>
  C2, as stated, fails: \<^verbatim>\<open>NeuralCDE.forward\<close> with \<open>output_channels = 1\<close> returns the
  trailing dimension of size 1. For three samples the returned shape is \<open>[3, 1]\<close>, not
  \<open>[3]\<close>.
\<close>

theorem NeuralCDE_forward_keeps_channel_dim:
  "map_sum id shape (NeuralCDE_forward lib0 model0 [path0] time0 time1) = Inr [3, 1] \<and>
   map_sum id shape (NeuralCDE_forward lib0 model0 [path0] time0 time1) \<noteq> Inr [3]"
  using forward_toy by auto

text \<open>
  C2, amended. For \<open>output_channels = 1\<close>, whenever \<^verbatim>\<open>NeuralCDE.forward\<close> returns, the
  integrator has returned a tensor of at least two dimensions \<open>n # k # s\<close>, the returned
  tensor has the shape of the kept state with its last dimension replaced by 1, and
  \<^verbatim>\<open>squeeze(-1)\<close>, which the caller applies, removes that dimension. When the integrator's
  result is three-dimensional (batch, time, hidden channels), the returned shape is
  \<open>[batch, 1]\<close> and the caller's squeezed prediction has the shape \<open>[batch]\<close>.
\<close>

theorem NeuralCDE_forward_output_shape:
  assumes "NeuralCDE_forward L (NeuralCDE_init ic hc 1 p0 p1 p2 p3) coeffs initial_t final_t = Inr pred_y"
  shows "\<exists>cubic_spline z0 t z_T n k s.
           cdeint L cubic_spline (CDEFunc_forward (CDEFunc_init ic hc p1 p2)) z0 t = Inr z_T \<and>
           shape z_T = n # k # s \<and>
           shape pred_y = butlast (n # s) @ [1] \<and>
           shape (squeeze_last pred_y) = butlast (n # s) \<and>
           (length s = 1 \<longrightarrow> shape pred_y = [n, 1] \<and> shape (squeeze_last pred_y) = [n])"
proof -
  let ?m = "NeuralCDE_init ic hc 1 p0 p1 p2 p3"
  obtain cubic_spline z0 t z_T z where
      c: "cdeint L cubic_spline (CDEFunc_forward (nc_func ?m)) z0 t = Inr z_T"
      and s: "select1 z_T 1 = Inr z" and l: "Linear_forward (nc_linear ?m) z = Inr pred_y"
    using assms unfolding NeuralCDE_forward_Inr by blast
  obtain n k s where sh: "shape z_T = n # k # s" "shape z = n # s"
    using select1_shape [OF s] by blast
  have func: "nc_func ?m = CDEFunc_init ic hc p1 p2"
    and out: "out_features (nc_linear ?m) = 1"
    by (simp_all add: NeuralCDE_init_def Linear_init_def)
  have py: "shape pred_y = butlast (n # s) @ [1]"
    using Linear_forward_shape(3) [OF l] sh(2) out by simp
  have sq: "shape (squeeze_last pred_y) = butlast (n # s)"
    using py by (rule squeeze_last_append)
  have "shape pred_y = [n, 1] \<and> shape (squeeze_last pred_y) = [n]" if "length s = 1"
  proof -
    from that obtain h where "s = [h]" by (cases s) auto
    then show ?thesis using py sq by simp
  qed
  then show ?thesis
    using c sh(1) py sq unfolding func by blast
qed

theorem NeuralCDE_forward_output_shape_witness:
  "\<exists>y. NeuralCDE_forward lib0
          (NeuralCDE_init 2 8 1 (zero_params 2 8) (zero_params 8 128) (zero_params 128 16)
             (zero_params 8 1)) [path0] time0 time1 = Inr y \<and>
        shape y = [3, 1] \<and> shape (squeeze_last y) = [3]"
proof -
  obtain y where y: "NeuralCDE_forward lib0 model0 [path0] time0 time1 = Inr y" "shape y = [3, 1]"
    using forward_toy by blast
  obtain cs z0 t z_T n s where
      "cdeint lib0 cs (CDEFunc_forward (CDEFunc_init 2 8 (zero_params 8 128) (zero_params 128 16))) z0 t = Inr z_T"
      "shape y = butlast (n # s) @ [1]" "shape (squeeze_last y) = butlast (n # s)"
    using NeuralCDE_forward_output_shape [OF y(1) [unfolded model0_def]] by blast
  then have "shape (squeeze_last y) = [3]"
    using y(2) by simp
  then show ?thesis
    using y by (auto simp: model0_def)
qed

lemma forward_scalar_time_raises:
  "shape initial_t = [] \<Longrightarrow> \<exists>e. NeuralCDE_forward L m coeffs initial_t final_t = Inl e"
  unfolding NeuralCDE_forward_def
  by (cases "NaturalCubicSpline L coeffs"; cases "evaluate L (projr (NaturalCubicSpline L coeffs)) initial_t";
      cases "Linear_forward (nc_initial m) (projr (evaluate L (projr (NaturalCubicSpline L coeffs)) initial_t))")
     (simp_all add: torch_cat_scalar)

text \<open>
  C1. The time arguments that \<^verbatim>\<open>main\<close> passes to the model, \<^verbatim>\<open>t[0]\<close> and \<^verbatim>\<open>t[-1]\<close> of
  the grid \<^verbatim>\<open>torch.linspace(0, 99, 100)\<close>, are zero-dimensional, \<^verbatim>\<open>torch.cat\<close> raises on
  them, and \<^verbatim>\<open>NeuralCDE.forward\<close> ends with an exception for every library, model and
  coefficient bundle: with these times the integrator is not invoked and no logit is
  produced. (For times on which \<^verbatim>\<open>torch.cat\<close> returns, lemma \<open>NeuralCDE_forward_Inr\<close>
  gives the steps of a call that returns, in their order.)
\<close>

theorem forward_raises_on_scalar_times:
  "\<exists>t0 t1. endpoints (torch_linspace 0 99 100) = Inr (t0, t1) \<and>
            shape t0 = [] \<and> shape t1 = [] \<and>
            torch_cat [t0, t1] = Inl RuntimeError \<and>
            (\<exists>e. NeuralCDE_forward L m coeffs t0 t1 = Inl e)"
proof -
  obtain t0 t1 where e: "endpoints (torch_linspace 0 99 100) = Inr (t0, t1)"
    by (simp add: endpoints_def select0_def select_last_def torch_linspace_def)
  have s: "shape t0 = []" "shape t1 = []"
    using endpoints_1d [OF shape_linspace e] by simp_all
  show ?thesis
    using e s torch_cat_scalar [OF s(1)] forward_scalar_time_raises [OF s(1)] by blast
qed

section \<open>Properties of the training loop\<close>

subsection \<open>The order of the calls, for every model call\<close>

lemma fold_failed:
  assumes "\<And>x s. r_failed s \<noteq> None \<Longrightarrow> f x s = s" and "r_failed s \<noteq> None"
  shows "fold f xs s = s"
  using assms(2) by (induction xs) (simp_all add: assms(1))

lemma train_batch_failed: "r_failed s \<noteq> None \<Longrightarrow> train_batch A fwd t e nb s = s"
  by (simp add: train_batch_def split: prod.splits)

lemma print_loss_failed: "r_failed s \<noteq> None \<Longrightarrow> print_loss e s = s"
  by (simp add: print_loss_def)

lemma train_epoch_failed: "r_failed s \<noteq> None \<Longrightarrow> train_epoch A fwd t batches e s = s"
  by (simp add: train_epoch_def fold_failed train_batch_failed print_loss_failed)

lemma evaluation_failed: "r_failed s \<noteq> None \<Longrightarrow> evaluation L A fwd R g s = (s, g)"
  by (simp add: evaluation_def)

lemma conforms_comp:
  assumes "conforms f w1" and "conforms g w2"
  shows "conforms (\<lambda>s. g (f s)) (w1 @ w2)"
  unfolding conforms_def
proof (intro allI conjI impI)
  fix s :: "('a, 'b) run"
  assume "r_failed s \<noteq> None"
  then show "g (f s) = s"
    using assms by (simp add: conforms_def)
next
  fix s :: "('a, 'b) run"
  assume ok: "r_failed s = None"
  then obtain p where p: "r_events (f s) = r_events s @ p" "prefix p w1"
      "r_failed (f s) = None \<longrightarrow> p = w1"
    using assms(1) unfolding conforms_def by blast
  show "\<exists>p. r_events (g (f s)) = r_events s @ p \<and> prefix p (w1 @ w2) \<and>
            (r_failed (g (f s)) = None \<longrightarrow> p = w1 @ w2)"
  proof (cases "r_failed (f s) = None")
    case True
    then obtain q where q: "r_events (g (f s)) = r_events (f s) @ q" "prefix q w2"
        "r_failed (g (f s)) = None \<longrightarrow> q = w2"
      using assms(2) unfolding conforms_def by blast
    have "p = w1" using p(3) True by simp
    then show ?thesis
      using p(1) q by (intro exI [of _ "w1 @ q"]) simp
  next
    case False
    then have same: "g (f s) = f s"
      using assms(2) by (simp add: conforms_def)
    have "prefix p (w1 @ w2)"
      using p(2) by (rule prefix_prefix)
    then show ?thesis
      using p(1) False unfolding same by (intro exI [of _ p]) blast
  qed
qed

lemma conforms_fold:
  assumes "\<And>x. x \<in> set xs \<Longrightarrow> conforms (f x) (w x)"
  shows "conforms (fold f xs) (concat (map w xs))"
  using assms
proof (induction xs)
  case Nil
  then show ?case by (simp add: conforms_def)
next
  case (Cons x xs)
  have "conforms (\<lambda>s. fold f xs (f x s)) (w x @ concat (map w xs))"
    using Cons by (intro conforms_comp) simp_all
  then show ?case by (simp add: comp_def)
qed

lemma train_batch_conforms: "conforms (train_batch A fwd train_t e nb) (batch_events e nb)"
  unfolding conforms_def train_batch_def batch_events_def
  by (auto simp: emit_def raise_def Let_def split: sum.splits prod.splits)

lemma print_loss_conforms: "conforms (print_loss e) [EvPrintLoss e]"
  unfolding conforms_def print_loss_def
  by (auto simp: emit_def raise_def split: sum.splits option.splits)

lemma train_epoch_conforms:
  "conforms (train_epoch A fwd train_t batches e) (epoch_events batches e)"
proof -
  have "conforms (fold (train_batch A fwd train_t e) (enumerate 0 batches))
          (concat (map (batch_events e) (enumerate 0 batches)))"
    by (intro conforms_fold) (rule train_batch_conforms)
  then have "conforms (\<lambda>s. print_loss e (fold (train_batch A fwd train_t e) (enumerate 0 batches) s))
          (epoch_events batches e)"
    unfolding epoch_events_def using print_loss_conforms by (rule conforms_comp)
  then show ?thesis
    unfolding train_epoch_def .
qed

lemma train_conforms:
  "conforms (train A fwd train_t batches) (training_events batches)"
  unfolding train_def training_events_def
  by (intro conforms_fold) (rule train_epoch_conforms)

lemma step_ordered_append:
  assumes "step_ordered xs" and "step_ordered ys"
  shows "step_ordered (xs @ ys)"
  unfolding step_ordered_def
proof (intro allI impI)
  fix i e b
  assume i: "i < length (xs @ ys)" and s: "(xs @ ys) ! i = EvStep e b"
  show "3 \<le> i \<and> (xs @ ys) ! (i - 1) = EvBackward e b \<and>
        (\<exists>y. (xs @ ys) ! (i - 2) = EvLoss e b y) \<and>
        (\<exists>c. (xs @ ys) ! (i - 3) = EvForward e b c)"
  proof (cases "i < length xs")
    case True
    then have "xs ! i = EvStep e b" using s by (simp add: nth_append)
    then have "3 \<le> i \<and> xs ! (i - 1) = EvBackward e b \<and> (\<exists>y. xs ! (i - 2) = EvLoss e b y) \<and>
        (\<exists>c. xs ! (i - 3) = EvForward e b c)"
      using assms(1) True unfolding step_ordered_def by blast
    moreover have "i - 1 < length xs" "i - 2 < length xs" "i - 3 < length xs"
      using True by simp_all
    ultimately show ?thesis by (simp add: nth_append)
  next
    case False
    define j where "j = i - length xs"
    have j: "j < length ys" "ys ! j = EvStep e b" "i = length xs + j"
      using False i s by (simp_all add: j_def nth_append)
    then have o: "3 \<le> j \<and> ys ! (j - 1) = EvBackward e b \<and> (\<exists>y. ys ! (j - 2) = EvLoss e b y) \<and>
        (\<exists>c. ys ! (j - 3) = EvForward e b c)"
      using assms(2) unfolding step_ordered_def by blast
    then have "i - 1 = length xs + (j - 1)" "i - 2 = length xs + (j - 2)"
        "i - 3 = length xs + (j - 3)"
      using j(3) by simp_all
    then show ?thesis using o j(3) by (simp only: nth_append_length_plus) simp
  qed
qed

lemma step_ordered_concat:
  "(\<And>xs. xs \<in> set xss \<Longrightarrow> step_ordered xs) \<Longrightarrow> step_ordered (concat xss)"
proof (induction xss)
  case Nil
  then show ?case by (simp add: step_ordered_def)
next
  case (Cons xs xss)
  have "step_ordered xs" using Cons.prems by simp
  moreover have "step_ordered (concat xss)" using Cons by simp
  ultimately show ?case by (simp add: step_ordered_append)
qed

lemma step_ordered_batch: "step_ordered (batch_events e (b, batch))"
  unfolding step_ordered_def batch_events_def prod.case
proof (intro allI impI)
  fix i e' b'
  let ?w = "[EvForward e b (butlast batch), EvLoss e b (last batch), EvBackward e b, EvStep e b,
             EvZeroGrad e b]"
  assume "i < length ?w" and s: "?w ! i = EvStep e' b'"
  then consider "i = 0" | "i = 1" | "i = 2" | "i = 3" | "i = 4"
    by (simp add: less_Suc_eq numeral_eq_Suc) blast
  then have "i = 3 \<and> e' = e \<and> b' = b"
    using s by cases simp_all
  then show "3 \<le> i \<and> ?w ! (i - 1) = EvBackward e' b' \<and> (\<exists>y. ?w ! (i - 2) = EvLoss e' b' y) \<and>
        (\<exists>c. ?w ! (i - 3) = EvForward e' b' c)"
    by simp
qed

lemma step_ordered_training: "step_ordered (training_events batches)"
proof -
  have "step_ordered [EvPrintLoss e]" for e
    by (simp add: step_ordered_def)
  moreover have "step_ordered (batch_events e nb)" for e nb
    by (cases nb) (simp add: step_ordered_batch)
  ultimately have "step_ordered (epoch_events batches e)" for e
    unfolding epoch_events_def
    by (intro step_ordered_append step_ordered_concat) auto
  then show ?thesis
    unfolding training_events_def by (intro step_ordered_concat) auto
qed

lemma step_ordered_prefix:
  assumes "prefix p w" and "step_ordered w"
  shows "step_ordered p"
proof -
  obtain q where w: "w = p @ q" using assms(1) by (auto simp: prefix_def)
  show ?thesis
    unfolding step_ordered_def
  proof (intro allI impI)
    fix i e b
    assume i: "i < length p" and s: "p ! i = EvStep e b"
    then have "i < length w" "w ! i = EvStep e b"
      by (simp_all add: w nth_append)
    then have "3 \<le> i \<and> w ! (i - 1) = EvBackward e b \<and> (\<exists>y. w ! (i - 2) = EvLoss e b y) \<and>
        (\<exists>c. w ! (i - 3) = EvForward e b c)"
      using assms(2) unfolding step_ordered_def by blast
    moreover have "i - 1 < length p" "i - 2 < length p" "i - 3 < length p"
      using i by simp_all
    ultimately show "3 \<le> i \<and> p ! (i - 1) = EvBackward e b \<and> (\<exists>y. p ! (i - 2) = EvLoss e b y) \<and>
        (\<exists>c. p ! (i - 3) = EvForward e b c)"
      by (simp add: w nth_append)
  qed
qed

lemma no_coeffs_training: "EvCoeffs \<notin> set (training_events batches)"
proof -
  have "EvCoeffs \<notin> set (batch_events e nb)" for e nb
    by (cases nb) (simp add: batch_events_def)
  then have "EvCoeffs \<notin> set (epoch_events batches e)" for e
    by (auto simp: epoch_events_def)
  then show ?thesis
    unfolding training_events_def by (simp del: upt_rec_numeral)
qed

text \<open>
  For every model call, optimiser, time grid and list of batches, the calls recorded by
  the training loop from a run that has not failed are a prefix of the sequence in which
  every batch contributes the forward pass on its coefficients, the loss against its
  labels, the gradient computation, the optimiser step and the gradient reset, in this
  order, and every epoch ends with the print of the loss; they are the whole sequence when
  no call raises. The coefficient computation is not among them, and every optimiser step
  comes directly after the gradient computation, the loss and the forward pass of the same
  epoch and batch. The example is a loop that runs to its end.
\<close>

lemma training_step_order:
  assumes "r_failed s = None"
  shows "\<exists>p. r_events (train A fwd train_t batches s) = r_events s @ p \<and>
             prefix p (training_events batches) \<and>
             (r_failed (train A fwd train_t batches s) = None \<longrightarrow> p = training_events batches) \<and>
             EvCoeffs \<notin> set p \<and>
             (\<forall>i<length p. \<forall>e b. p ! i = EvStep e b \<longrightarrow>
                3 \<le> i \<and> p ! (i - 1) = EvBackward e b \<and> (\<exists>y. p ! (i - 2) = EvLoss e b y) \<and>
                (\<exists>c. p ! (i - 3) = EvForward e b c))"
proof -
  obtain p where p: "r_events (train A fwd train_t batches s) = r_events s @ p"
      "prefix p (training_events batches)"
      "r_failed (train A fwd train_t batches s) = None \<longrightarrow> p = training_events batches"
    using train_conforms [of A fwd train_t batches] assms unfolding conforms_def by blast
  have so: "step_ordered p"
    using p(2) step_ordered_training by (rule step_ordered_prefix)
  have "set p \<subseteq> set (training_events batches)"
    using p(2) by (rule set_mono_prefix)
  then have nc: "EvCoeffs \<notin> set p"
    using no_coeffs_training [of batches] by blast
  note so' = so [unfolded step_ordered_def]
  show ?thesis
    apply (rule exI [of _ p])
    apply (intro conjI)
        apply (rule p(1))
       apply (rule p(2))
      apply (rule p(3))
     apply (rule nc)
    apply (rule so')
    done
qed

lemma fold_invariant:
  assumes "\<And>x s. P s \<Longrightarrow> P (f x s)" and "P s"
  shows "P (fold f xs s)"
  using assms(2) by (induction xs arbitrary: s) (simp_all add: assms(1))

lemma toy_epoch_ok:
  assumes "r_failed s = None"
  shows "r_failed (train_epoch autograd0 fwd0 train_t0 [batch0] e s) = None"
proof -
  define z where "z = torch_zeros [1, 1]"
  obtain t0 t1 where ep: "endpoints train_t0 = Inr (t0, t1)"
    by (simp add: endpoints_def select0_def select_last_def train_t0_def torch_linspace_def)
  have f: "fwd0 m (butlast batch0) t0 t1 = Inr z" for m
    by (simp add: fwd0_def batch0_def torch_zeros_def z_def)
  have "shape (squeeze_last z) = shape (last batch0)"
    by (simp add: squeeze_last_def torch_zeros_def batch0_def z_def)
  then obtain x where l: "binary_cross_entropy_with_logits (squeeze_last z) (last batch0) =
      Inr \<lparr>shape = [], data = [x]\<rparr>"
    by (simp add: binary_cross_entropy_with_logits_def)
  have ne: "batch0 \<noteq> []" by (simp add: batch0_def)
  have b: "backward autograd0 m c y g = Inr ()" "adam_step autograd0 opt m g = Inr ((), m)"
    for m c y g opt
    by (simp_all add: autograd0_def)
  have "r_failed (train_batch autograd0 fwd0 train_t0 e (0, batch0) s) = None \<and>
        r_loss (train_batch autograd0 fwd0 train_t0 e (0, batch0) s) = Some \<lparr>shape = [], data = [x]\<rparr>"
    using assms ne by (simp add: train_batch_def ep f l b Let_def emit_def)
  then show ?thesis
    by (simp add: train_epoch_def print_loss_def item_def emit_def)
qed

lemma toy_train_ok: "r_failed (train autograd0 fwd0 train_t0 [batch0] run0) = None"
  unfolding train_def
  by (rule fold_invariant [where P = "\<lambda>s. r_failed s = None"])
     (simp_all add: toy_epoch_ok run0_def)

lemma training_step_order_example:
  "r_failed run0 = None \<and>
   r_failed (train autograd0 fwd0 train_t0 [batch0] run0) = None \<and>
   r_events (train autograd0 fwd0 train_t0 [batch0] run0) = training_events [batch0]"
proof -
  have ok: "r_failed run0 = None" by (simp add: run0_def)
  have ev: "r_events run0 = []" by (simp add: run0_def)
  from training_step_order [OF ok, of autograd0 fwd0 train_t0 "[batch0]"]
  obtain p where p: "r_events (train autograd0 fwd0 train_t0 [batch0] run0) = r_events run0 @ p \<and>
      prefix p (training_events [batch0]) \<and>
      (r_failed (train autograd0 fwd0 train_t0 [batch0] run0) = None \<longrightarrow>
         p = training_events [batch0]) \<and>
      EvCoeffs \<notin> set p \<and>
      (\<forall>i<length p. \<forall>e b. p ! i = EvStep e b \<longrightarrow>
         3 \<le> i \<and> p ! (i - 1) = EvBackward e b \<and> (\<exists>y. p ! (i - 2) = EvLoss e b y) \<and>
         (\<exists>c. p ! (i - 3) = EvForward e b c))" ..
  then have "p = training_events [batch0]"
    using toy_train_ok by (elim conjE) (erule mp)
  then have "r_events (train autograd0 fwd0 train_t0 [batch0] run0) = training_events [batch0]"
    using p ev by (simp only: append_Nil)
  then show ?thesis
    using ok toy_train_ok by (intro conjI)
qed

subsection \<open>What a loop that does not fail computes\<close>

text \<open>
  The loader of a dataset of 128 samples yields four batches of 32 consecutive samples, the
  same in every epoch. A batch that does not fail leaves in \<^verbatim>\<open>loss\<close> the loss of the
  model's output on that batch against the labels of that batch; its model and optimiser
  state are those of the optimiser step on the gradients of the gradient computation, and
  its gradients are reset. An epoch that does not fail prints the loss of its last batch.
\<close>

lemma batch_indices_128: "batch_indices 128 32 = [[0..<32], [32..<64], [64..<96], [96..<128]]"
proof -
  have "[0..<(128 + 32 - 1) div 32] = [0, 1, 2, 3::nat]"
    by (simp add: upt_rec)
  then show ?thesis
    unfolding batch_indices_def by (simp del: upt_rec_numeral)
qed

lemma TensorDataset_len:
  assumes "TensorDataset (coeffs @ [y]) = Inr ds" and "shape y = [n]"
  shows "ds = coeffs @ [y]" and "dataset_len ds = n"
proof -
  show ds: "ds = coeffs @ [y]"
    using assms(1) by (auto simp: TensorDataset_def rbind_Inr_iff split: list.splits)
  have all: "check_sizes m ts = Inr () \<Longrightarrow> t \<in> set ts \<Longrightarrow> \<exists>s. shape t = m # s" for m ts t
    by (induction ts) (auto split: list.splits if_splits)
  obtain t rest where c: "coeffs @ [y] = t # rest" by (cases "coeffs @ [y]") auto
  then obtain m s where t: "shape t = m # s" and ck: "check_sizes m (coeffs @ [y]) = Inr ()"
    using assms(1) by (auto simp: TensorDataset_def rbind_Inr_iff split: list.splits)
  have "\<exists>s. shape y = m # s" using all [OF ck, of y] by simp
  then have "m = n" using assms(2) by simp
  then show "dataset_len ds = n"
    using ds c t by (simp add: dataset_len_def)
qed

lemma train_batch_printed: "r_printed (train_batch A fwd t e nb s) = r_printed s"
  unfolding train_batch_def
  by (auto simp: emit_def raise_def Let_def split: sum.splits prod.splits)

lemma fold_train_batch_printed:
  "r_printed (fold (train_batch A fwd t e) nbs s) = r_printed s"
  by (induction nbs arbitrary: s) (simp_all add: train_batch_printed)

lemma train_batch_loss:
  assumes "r_failed (train_batch A fwd t e (b, batch) s) = None"
  shows "\<exists>t0 t1 out l. endpoints t = Inr (t0, t1) \<and>
           fwd (r_model s) (butlast batch) t0 t1 = Inr out \<and>
           binary_cross_entropy_with_logits (squeeze_last out) (last batch) = Inr l \<and>
           r_loss (train_batch A fwd t e (b, batch) s) = Some l"
proof -
  have ok: "r_failed s = None"
    using assms train_batch_failed [of s A fwd t e "(b, batch)"] by (cases "r_failed s") auto
  show ?thesis
    using assms ok unfolding train_batch_def
    by (auto simp: emit_def raise_def Let_def split: sum.splits prod.splits if_splits)
qed

lemma train_batch_updates:
  assumes "r_failed (train_batch A fwd t e (b, batch) s) = None"
  shows "\<exists>gr opt' model'.
           backward A (r_model s) (butlast batch) (last batch) (r_grads s) = Inr gr \<and>
           adam_step A (r_opt s) (r_model s) gr = Inr (opt', model') \<and>
           r_model (train_batch A fwd t e (b, batch) s) = model' \<and>
           r_opt (train_batch A fwd t e (b, batch) s) = opt' \<and>
           r_grads (train_batch A fwd t e (b, batch) s) = zero_grad A gr"
proof -
  have ok: "r_failed s = None"
    using assms train_batch_failed [of s A fwd t e "(b, batch)"] by (cases "r_failed s") auto
  show ?thesis
    using assms ok unfolding train_batch_def
    by (auto simp: emit_def raise_def Let_def split: sum.splits prod.splits if_splits)
qed

lemma train_epoch_prints_last_loss:
  assumes "r_failed (train_epoch A fwd t (batches @ [batch]) e s) = None"
  shows "\<exists>s' t0 t1 out l x.
           s' = fold (train_batch A fwd t e) (enumerate 0 batches) s \<and>
           endpoints t = Inr (t0, t1) \<and>
           fwd (r_model s') (butlast batch) t0 t1 = Inr out \<and>
           binary_cross_entropy_with_logits (squeeze_last out) (last batch) = Inr l \<and>
           item l = Inr x \<and>
           r_printed (train_epoch A fwd t (batches @ [batch]) e s) = r_printed s @ [x]"
proof -
  define s' where "s' = fold (train_batch A fwd t e) (enumerate 0 batches) s"
  define s'' where "s'' = train_batch A fwd t e (length batches, batch) s'"
  have ep: "train_epoch A fwd t (batches @ [batch]) e s = print_loss e s''"
    by (simp add: train_epoch_def enumerate_append_eq s'_def s''_def)
  have ok'': "r_failed s'' = None"
    using assms ep print_loss_failed [of s'' e] by (cases "r_failed s''") auto
  obtain t0 t1 out l where l: "endpoints t = Inr (t0, t1)"
      "fwd (r_model s') (butlast batch) t0 t1 = Inr out"
      "binary_cross_entropy_with_logits (squeeze_last out) (last batch) = Inr l"
      "r_loss s'' = Some l"
    using train_batch_loss [of A fwd t e "length batches" batch s'] ok'' unfolding s''_def by blast
  have pr: "r_printed s'' = r_printed s"
    by (simp add: s''_def s'_def train_batch_printed fold_train_batch_printed)
  obtain x where x: "item l = Inr x" "r_printed (print_loss e s'') = r_printed s'' @ [x]"
    using assms ep ok'' l(4)
    by (cases "item l") (auto simp: print_loss_def raise_def emit_def)
  show ?thesis
    using l x pr ep s'_def by auto
qed

subsection \<open>The loop of the script\<close>

text \<open>
  With \<^verbatim>\<open>NeuralCDE.forward\<close> as the model call and a one-dimensional time grid, the time
  arguments \<^verbatim>\<open>t[0]\<close> and \<^verbatim>\<open>t[-1]\<close> are zero-dimensional, and a batch ends with an
  exception, at the latest in \<^verbatim>\<open>torch.cat\<close>, before any loss is computed.
\<close>

lemma train_batch_raises:
  assumes "shape train_t = [n]" and "r_failed s = None"
  shows "r_failed (train_batch A (NeuralCDE_forward L) train_t e (b, batch) s) \<noteq> None \<and>
         r_printed (train_batch A (NeuralCDE_forward L) train_t e (b, batch) s) = r_printed s \<and>
         (r_events (train_batch A (NeuralCDE_forward L) train_t e (b, batch) s) = r_events s \<or>
          r_events (train_batch A (NeuralCDE_forward L) train_t e (b, batch) s) =
            r_events s @ [EvForward e b (butlast batch)])"
proof (cases "batch = []")
  case True
  then show ?thesis using assms(2) by (simp add: train_batch_def raise_def)
next
  case False
  show ?thesis
  proof (cases "endpoints train_t")
    case (Inl err)
    then show ?thesis using assms(2) False by (simp add: train_batch_def raise_def)
  next
    case (Inr tt)
    obtain t0 t1 where tt: "tt = (t0, t1)" by (cases tt)
    have "shape t0 = []"
      using endpoints_1d(1) [OF assms(1)] Inr tt by simp
    then obtain err where "NeuralCDE_forward L (r_model s) (butlast batch) t0 t1 = Inl err"
      using forward_scalar_time_raises by blast
    then show ?thesis
      using assms(2) False Inr tt by (simp add: train_batch_def raise_def emit_def)
  qed
qed

lemma first_epoch_raises:
  assumes "shape train_t = [n]" and "r_failed s = None" and "r_loss s = None"
  shows "r_failed (train_epoch A (NeuralCDE_forward L) train_t batches 0 s) \<noteq> None \<and>
         r_printed (train_epoch A (NeuralCDE_forward L) train_t batches 0 s) = r_printed s \<and>
         (r_events (train_epoch A (NeuralCDE_forward L) train_t batches 0 s) = r_events s \<or>
          (\<exists>c. r_events (train_epoch A (NeuralCDE_forward L) train_t batches 0 s) =
            r_events s @ [EvForward 0 0 c]))"
proof (cases batches)
  case Nil
  then show ?thesis
    using assms(2,3) by (simp add: train_epoch_def print_loss_def raise_def)
next
  case (Cons batch rest)
  let ?s1 = "train_batch A (NeuralCDE_forward L) train_t 0 (0, batch) s"
  have s1: "r_failed ?s1 \<noteq> None" "r_printed ?s1 = r_printed s"
    "r_events ?s1 = r_events s \<or> r_events ?s1 = r_events s @ [EvForward 0 0 (butlast batch)]"
    using train_batch_raises [OF assms(1,2), of A L 0 0 batch] by simp_all
  have "fold (train_batch A (NeuralCDE_forward L) train_t 0) (enumerate (Suc 0) rest) ?s1 = ?s1"
    using s1(1) by (intro fold_failed) (simp_all add: train_batch_failed)
  then have "train_epoch A (NeuralCDE_forward L) train_t batches 0 s = ?s1"
    using s1(1) by (simp add: train_epoch_def Cons print_loss_failed)
  then show ?thesis using s1 by auto
qed

lemma train_raises:
  assumes "shape train_t = [n]" and "r_failed s = None" and "r_loss s = None"
  shows "r_failed (train A (NeuralCDE_forward L) train_t batches s) \<noteq> None \<and>
         r_printed (train A (NeuralCDE_forward L) train_t batches s) = r_printed s \<and>
         (r_events (train A (NeuralCDE_forward L) train_t batches s) = r_events s \<or>
          (\<exists>c. r_events (train A (NeuralCDE_forward L) train_t batches s) =
            r_events s @ [EvForward 0 0 c]))"
proof -
  let ?s1 = "train_epoch A (NeuralCDE_forward L) train_t batches 0 s"
  have s1: "r_failed ?s1 \<noteq> None"
    using first_epoch_raises [OF assms, of A L batches] by simp
  have "[0..<100] = 0 # [Suc 0..<100]"
    by (simp add: upt_conv_Cons del: upt_rec_numeral)
  then have "train A (NeuralCDE_forward L) train_t batches s =
      fold (train_epoch A (NeuralCDE_forward L) train_t batches) [Suc 0..<100] ?s1"
    by (simp add: train_def del: upt_rec_numeral)
  also have "\<dots> = ?s1"
    using s1 by (intro fold_failed) (simp_all add: train_epoch_failed)
  finally show ?thesis
    using first_epoch_raises [OF assms, of A L batches] by simp
qed

text \<open>
  C5. Every run of \<^verbatim>\<open>main\<close>, with any library, optimiser and generator, ends with an
  exception and prints nothing; the calls it records are a prefix of the data generation,
  the coefficient computation and the forward pass of the first batch of the first epoch.
  No epoch is completed and no loss is printed.
\<close>

theorem main_training_raises:
  "out_error (fst (main L A R g0)) \<noteq> None \<and>
   out_printed (fst (main L A R g0)) = [] \<and>
   (\<exists>c. prefix (out_events (fst (main L A R g0))) [EvGetData, EvCoeffs, EvForward 0 0 c])"
proof (cases "get_data R g0")
  case (Pair res g1)
  show ?thesis
  proof (cases res)
    case (Inl e)
    then show ?thesis using Pair by (simp add: main_def)
  next
    case (Inr d)
    obtain train_t train_X train_y where d: "d = (train_t, train_X, train_y)"
      by (cases d)
    have st: "shape train_t = [100]"
      using get_data_times [of R g0 train_t train_X train_y g1] Pair Inr d
      by (simp add: shape_linspace)
    obtain model g2 where mg: "NeuralCDE_new R 2 8 1 g1 = (model, g2)"
      by (cases "NeuralCDE_new R 2 8 1 g1")
    show ?thesis
    proof (cases "rbind (natural_cubic_spline_coeffs L train_t train_X)
                    (\<lambda>train_coeffs. TensorDataset (train_coeffs @ [train_y]))")
      case (Inl e)
      then show ?thesis using Pair Inr d mg by (simp add: main_def)
    next
      case ds: (Inr train_dataset)
      let ?s0 = "\<lparr>r_model = model, r_grads = no_grads A, r_opt = adam_init A model,
                  r_loss = None, r_events = [EvGetData, EvCoeffs], r_printed = [],
                  r_failed = None\<rparr>"
      let ?s1 = "train A (NeuralCDE_forward L) train_t (DataLoader train_dataset 32) ?s0"
      have t: "r_failed ?s1 \<noteq> None" "r_printed ?s1 = []"
        "r_events ?s1 = [EvGetData, EvCoeffs] \<or>
         (\<exists>c. r_events ?s1 = [EvGetData, EvCoeffs, EvForward 0 0 c])"
        using train_raises [of train_t 100 ?s0 A L "DataLoader train_dataset 32"] st by simp_all
      have ev: "evaluation L A (NeuralCDE_forward L) R g2 ?s1 = (?s1, g2)"
        using t(1) by (rule evaluation_failed)
      have "fst (main L A R g0) = outcome_of ?s1"
        using Pair Inr d mg ds ev by (simp add: main_def Let_def)
      then show ?thesis
        using t by (auto simp: outcome_of_def)
    qed
  qed
qed

theorem main_training_raises_example:
  "out_error (fst (main lib0 autograd0 rng0 ())) \<noteq> None \<and>
   out_printed (fst (main lib0 autograd0 rng0 ())) = []"
  using main_training_raises [of lib0 autograd0 rng0 "()"] by simp

lemma train_batch_raises_state:
  assumes "shape train_t = [n]" and "r_failed s = None"
  shows "r_model (train_batch A (NeuralCDE_forward L) train_t e (b, batch) s) = r_model s \<and>
         r_grads (train_batch A (NeuralCDE_forward L) train_t e (b, batch) s) = r_grads s \<and>
         r_opt (train_batch A (NeuralCDE_forward L) train_t e (b, batch) s) = r_opt s \<and>
         r_loss (train_batch A (NeuralCDE_forward L) train_t e (b, batch) s) = r_loss s"
proof (cases "batch = []")
  case True
  then show ?thesis using assms(2) by (simp add: train_batch_def raise_def)
next
  case False
  show ?thesis
  proof (cases "endpoints train_t")
    case (Inl err)
    then show ?thesis using assms(2) False by (simp add: train_batch_def raise_def)
  next
    case (Inr tt)
    obtain t0 t1 where tt: "tt = (t0, t1)" by (cases tt)
    have "shape t0 = []"
      using endpoints_1d(1) [OF assms(1)] Inr tt by simp
    then obtain err where "NeuralCDE_forward L (r_model s) (butlast batch) t0 t1 = Inl err"
      using forward_scalar_time_raises by blast
    then show ?thesis
      using assms(2) False Inr tt by (simp add: train_batch_def raise_def emit_def)
  qed
qed

lemma first_epoch_raises_state:
  assumes "shape train_t = [n]" and "r_failed s = None" and "r_loss s = None"
  shows "r_model (train_epoch A (NeuralCDE_forward L) train_t batches 0 s) = r_model s \<and>
         r_grads (train_epoch A (NeuralCDE_forward L) train_t batches 0 s) = r_grads s \<and>
         r_opt (train_epoch A (NeuralCDE_forward L) train_t batches 0 s) = r_opt s \<and>
         r_loss (train_epoch A (NeuralCDE_forward L) train_t batches 0 s) = None"
proof (cases batches)
  case Nil
  then show ?thesis
    using assms(2,3) by (simp add: train_epoch_def print_loss_def raise_def)
next
  case (Cons batch rest)
  let ?s1 = "train_batch A (NeuralCDE_forward L) train_t 0 (0, batch) s"
  have f: "r_failed ?s1 \<noteq> None"
    using train_batch_raises [OF assms(1,2), of A L 0 0 batch] by simp
  have "fold (train_batch A (NeuralCDE_forward L) train_t 0) (enumerate (Suc 0) rest) ?s1 = ?s1"
    using f by (intro fold_failed) (simp_all add: train_batch_failed)
  then have "train_epoch A (NeuralCDE_forward L) train_t batches 0 s = ?s1"
    using f by (simp add: train_epoch_def Cons print_loss_failed)
  then show ?thesis
    using train_batch_raises_state [OF assms(1,2), of A L 0 0 batch] assms(3) by simp
qed

lemma train_is_first_epoch:
  assumes "shape train_t = [n]" and "r_failed s = None" and "r_loss s = None"
  shows "train A (NeuralCDE_forward L) train_t batches s =
         train_epoch A (NeuralCDE_forward L) train_t batches 0 s"
proof -
  let ?s1 = "train_epoch A (NeuralCDE_forward L) train_t batches 0 s"
  have s1: "r_failed ?s1 \<noteq> None"
    using first_epoch_raises [OF assms, of A L batches] by simp
  have "[0..<100] = 0 # [Suc 0..<100]"
    by (simp add: upt_conv_Cons del: upt_rec_numeral)
  then have "train A (NeuralCDE_forward L) train_t batches s =
      fold (train_epoch A (NeuralCDE_forward L) train_t batches) [Suc 0..<100] ?s1"
    by (simp add: train_def del: upt_rec_numeral)
  also have "\<dots> = ?s1"
    using s1 by (intro fold_failed) (simp_all add: train_epoch_failed)
  finally show ?thesis .
qed

lemma main_events_cases:
  "out_events (fst (main L A R g0)) = [EvGetData] \<or>
   out_events (fst (main L A R g0)) = [EvGetData, EvCoeffs] \<or>
   (\<exists>c. out_events (fst (main L A R g0)) = [EvGetData, EvCoeffs, EvForward 0 0 c])"
proof (cases "get_data R g0")
  case (Pair res g1)
  show ?thesis
  proof (cases res)
    case (Inl e)
    then show ?thesis using Pair by (simp add: main_def)
  next
    case (Inr d)
    obtain train_t train_X train_y where d: "d = (train_t, train_X, train_y)"
      by (cases d)
    have st: "shape train_t = [100]"
      using get_data_times [of R g0 train_t train_X train_y g1] Pair Inr d
      by (simp add: shape_linspace)
    obtain model g2 where mg: "NeuralCDE_new R 2 8 1 g1 = (model, g2)"
      by (cases "NeuralCDE_new R 2 8 1 g1")
    show ?thesis
    proof (cases "rbind (natural_cubic_spline_coeffs L train_t train_X)
                    (\<lambda>train_coeffs. TensorDataset (train_coeffs @ [train_y]))")
      case (Inl e)
      then show ?thesis using Pair Inr d mg by (simp add: main_def)
    next
      case ds: (Inr train_dataset)
      let ?s0 = "\<lparr>r_model = model, r_grads = no_grads A, r_opt = adam_init A model,
                  r_loss = None, r_events = [EvGetData, EvCoeffs], r_printed = [],
                  r_failed = None\<rparr>"
      let ?s1 = "train A (NeuralCDE_forward L) train_t (DataLoader train_dataset 32) ?s0"
      have t: "r_failed ?s1 \<noteq> None"
        "r_events ?s1 = [EvGetData, EvCoeffs] \<or>
         (\<exists>c. r_events ?s1 = [EvGetData, EvCoeffs, EvForward 0 0 c])"
        using train_raises [of train_t 100 ?s0 A L "DataLoader train_dataset 32"] st by simp_all
      have ev: "evaluation L A (NeuralCDE_forward L) R g2 ?s1 = (?s1, g2)"
        using t(1) by (rule evaluation_failed)
      have "fst (main L A R g0) = outcome_of ?s1"
        using Pair Inr d mg ds ev by (simp add: main_def Let_def)
      then show ?thesis
        using t(2) by (auto simp: outcome_of_def)
    qed
  qed
qed

text \<open>
  C6. The steps of a batch are written in the order forward pass, loss, gradient
  computation, optimiser step, gradient reset, but with \<^verbatim>\<open>NeuralCDE.forward\<close> as the model
  call and the time grid of \<^verbatim>\<open>get_data\<close> they are not performed. From a run that has not
  failed and has no loss yet, as in \<^verbatim>\<open>main\<close>, the training loop ends with an exception
  after recording at most the forward pass of batch 0 of epoch 0: no loss is computed, and
  the gradients, the optimiser state and the model are what they were. In every run of
  \<^verbatim>\<open>main\<close>, with any library, optimiser and generator, no loss, gradient computation,
  optimiser step or gradient reset is recorded.
\<close>

theorem batch_steps_never_run:
  assumes "r_failed s = None" and "r_loss s = None"
  shows "r_failed (train A (NeuralCDE_forward L) (torch_linspace 0 99 100) batches s) \<noteq> None \<and>
         (r_events (train A (NeuralCDE_forward L) (torch_linspace 0 99 100) batches s) = r_events s \<or>
          (\<exists>c. r_events (train A (NeuralCDE_forward L) (torch_linspace 0 99 100) batches s) =
                 r_events s @ [EvForward 0 0 c])) \<and>
         r_loss (train A (NeuralCDE_forward L) (torch_linspace 0 99 100) batches s) = None \<and>
         r_grads (train A (NeuralCDE_forward L) (torch_linspace 0 99 100) batches s) = r_grads s \<and>
         r_opt (train A (NeuralCDE_forward L) (torch_linspace 0 99 100) batches s) = r_opt s \<and>
         r_model (train A (NeuralCDE_forward L) (torch_linspace 0 99 100) batches s) = r_model s \<and>
         (\<forall>e b y. EvLoss e b y \<notin> set (out_events (fst (main L A R g0)))) \<and>
         (\<forall>e b. EvBackward e b \<notin> set (out_events (fst (main L A R g0)))) \<and>
         (\<forall>e b. EvStep e b \<notin> set (out_events (fst (main L A R g0)))) \<and>
         (\<forall>e b. EvZeroGrad e b \<notin> set (out_events (fst (main L A R g0))))"
proof -
  let ?t = "torch_linspace 0 99 100"
  have st: "shape ?t = [100]" by (rule shape_linspace)
  have eq: "train A (NeuralCDE_forward L) ?t batches s =
      train_epoch A (NeuralCDE_forward L) ?t batches 0 s"
    using st assms by (rule train_is_first_epoch)
  have a: "r_failed (train A (NeuralCDE_forward L) ?t batches s) \<noteq> None"
    "r_events (train A (NeuralCDE_forward L) ?t batches s) = r_events s \<or>
     (\<exists>c. r_events (train A (NeuralCDE_forward L) ?t batches s) = r_events s @ [EvForward 0 0 c])"
    using first_epoch_raises [OF st assms, of A L batches] unfolding eq by simp_all
  have b: "r_loss (train A (NeuralCDE_forward L) ?t batches s) = None"
    "r_grads (train A (NeuralCDE_forward L) ?t batches s) = r_grads s"
    "r_opt (train A (NeuralCDE_forward L) ?t batches s) = r_opt s"
    "r_model (train A (NeuralCDE_forward L) ?t batches s) = r_model s"
    using first_epoch_raises_state [OF st assms, of A L batches] unfolding eq by simp_all
  have m: "EvLoss e b y \<notin> set (out_events (fst (main L A R g0)))"
    "EvBackward e b \<notin> set (out_events (fst (main L A R g0)))"
    "EvStep e b \<notin> set (out_events (fst (main L A R g0)))"
    "EvZeroGrad e b \<notin> set (out_events (fst (main L A R g0)))" for e b y
    using main_events_cases [of L A R g0] by auto
  show ?thesis
    using a b m by (intro conjI allI)
qed

theorem batch_steps_never_run_example:
  "r_failed run0 = None \<and> r_loss run0 = None \<and>
   r_failed (train autograd0 (NeuralCDE_forward lib0) (torch_linspace 0 99 100) [batch0] run0) \<noteq> None \<and>
   r_loss (train autograd0 (NeuralCDE_forward lib0) (torch_linspace 0 99 100) [batch0] run0) = None \<and>
   r_model (train autograd0 (NeuralCDE_forward lib0) (torch_linspace 0 99 100) [batch0] run0) = model0"
proof -
  have h: "r_failed run0 = None" "r_loss run0 = None" and m: "r_model run0 = model0"
    by (simp_all add: run0_def)
  from batch_steps_never_run [OF h, of autograd0 lib0 "[batch0]" rng0 "()"]
  show ?thesis using h m by (elim conjE) (intro conjI, simp_all)
qed

section \<open>Properties of the evaluation\<close>

text \<open>
  On one-dimensional predictions and labels of one length, the reported number is the
  number of positions where the thresholded prediction equals the label, divided by the
  number of labels.
\<close>

lemma sum_list_indicator:
  "sum_list (map (\<lambda>i. if P i then 1 else 0) xs) = real (length (filter P xs))"
  by (induction xs) simp_all

lemma accuracy_counts:
  assumes "shape pred_y = [n]" and "shape test_y = [n]" and "wf_tensor pred_y"
  shows "accuracy A pred_y test_y =
           Inr (real (length (filter
                  (\<lambda>i. (if 0.5 < torch_sigmoid A (elem pred_y [i]) then 1 else 0) = elem test_y [i])
                  [0..<n])) / real n)"
proof -
  define bp where "bp = tmap (\<lambda>x. if 0.5 < torch_sigmoid A x then 1 else (0::real)) pred_y"
  have sbp: "shape bp = [n]" by (simp add: bp_def assms(1))
  have el: "elem bp [i] = (if 0.5 < torch_sigmoid A (elem pred_y [i]) then 1 else 0)" if "i < n" for i
    using that assms(1,3) unfolding bp_def by (subst elem_tmap) simp_all
  define pm where "pm = tabulate [n]
      (\<lambda>idx. if elem bp (bidx [n] idx) = elem test_y (bidx [n] idx) then 1 else (0::real))"
  have tb: "tbinop (\<lambda>a b. if a = b then 1 else 0) bp test_y = Inr pm"
    using assms(2) sbp by (simp add: tbinop_def broadcast_same pm_def)
  have "data pm = map (\<lambda>i. if elem bp (bidx [n] [i]) = elem test_y (bidx [n] [i]) then 1 else 0) [0..<n]"
    by (simp add: pm_def tabulate_def indices_1d comp_def)
  also have "\<dots> = map (\<lambda>i. if (if 0.5 < torch_sigmoid A (elem pred_y [i]) then 1 else 0) = elem test_y [i]
                              then 1 else 0) [0..<n]"
  proof (rule map_cong [OF refl])
    fix i assume "i \<in> set [0..<n]"
    then have i: "i < n" by simp
    then have "bidx [n] [i] = [i]" by (intro bidx_valid) simp
    then show "(if elem bp (bidx [n] [i]) = elem test_y (bidx [n] [i]) then 1 else (0::real)) =
        (if (if 0.5 < torch_sigmoid A (elem pred_y [i]) then 1 else 0) = elem test_y [i] then 1 else 0)"
      using el [OF i] by simp
  qed
  finally have "sum_list (data pm) =
      real (length (filter
        (\<lambda>i. (if 0.5 < torch_sigmoid A (elem pred_y [i]) then 1 else 0) = elem test_y [i]) [0..<n]))"
    by (simp only: sum_list_indicator)
  then show ?thesis
    unfolding accuracy_def Let_def bp_def [symmetric] tb rbind.simps
    by (simp add: assms(2))
qed

text \<open>
  C7. The evaluation phase with \<^verbatim>\<open>NeuralCDE.forward\<close> as the model call, from any run,
  with any library and generator, ends with an exception and prints nothing: the calls it
  records are a prefix of the data generation, the coefficient computation and the forward
  pass on the test set. No prediction is thresholded and no accuracy is reported.
\<close>

theorem evaluation_raises:
  "r_failed (fst (evaluation L A (NeuralCDE_forward L) R g s)) \<noteq> None \<and>
   r_printed (fst (evaluation L A (NeuralCDE_forward L) R g s)) = r_printed s \<and>
   (\<exists>p. r_events (fst (evaluation L A (NeuralCDE_forward L) R g s)) = r_events s @ p \<and>
        prefix p [EvGetData, EvCoeffs, EvTestForward])"
proof (cases "r_failed s = None")
  case False
  then show ?thesis by (simp add: evaluation_failed)
next
  case True
  obtain res g' where gd: "get_data R g = (res, g')" by (cases "get_data R g")
  show ?thesis
  proof (cases res)
    case (Inl e)
    then show ?thesis using True gd by (simp add: evaluation_def raise_def emit_def)
  next
    case (Inr d)
    obtain test_t test_X test_y where d: "d = (test_t, test_X, test_y)" by (cases d)
    have st: "shape test_t = [100]"
      using get_data_times [of R g test_t test_X test_y g'] gd Inr d by (simp add: shape_linspace)
    show ?thesis
    proof (cases "natural_cubic_spline_coeffs L test_t test_X")
      case (Inl e)
      then show ?thesis using True gd Inr d by (simp add: evaluation_def raise_def emit_def)
    next
      case cf: (Inr test_coeffs)
      show ?thesis
      proof (cases "endpoints test_t")
        case (Inl e)
        then show ?thesis using True gd Inr d cf by (simp add: evaluation_def raise_def emit_def)
      next
        case ep: (Inr tt)
        obtain t0 t1 where tt: "tt = (t0, t1)" by (cases tt)
        have "shape t0 = []"
          using endpoints_1d(1) [OF st] ep tt by simp
        then obtain e where "NeuralCDE_forward L (r_model s) test_coeffs t0 t1 = Inl e"
          using forward_scalar_time_raises by blast
        then show ?thesis
          using True gd Inr d cf ep tt by (simp add: evaluation_def raise_def emit_def)
      qed
    qed
  qed
qed

theorem evaluation_raises_example:
  "r_failed (fst (evaluation lib0 autograd0 (NeuralCDE_forward lib0) rng0 () run0)) \<noteq> None \<and>
   r_printed (fst (evaluation lib0 autograd0 (NeuralCDE_forward lib0) rng0 () run0)) = []"
  using evaluation_raises [of lib0 autograd0 rng0 "()" run0] by (simp add: run0_def)

end
